theory Spec2Isabelle
  imports
    Main
    "HOL-Library.Word"
    "HOL-Library.Sublist"
    "HOL-Library.Char_ord"
    "HOL-Library.List_Lexorder"
    "HOL-Library.Option_ord"
    "HOL-Library.Product_Lexorder"
begin

unbundle bit_operations_syntax

section \<open>Arrow data types and the SQLite type mapper\<close>

text \<open>
  The Arrow data types that \<^verbatim>\<open>sqlite_server.cc\<close> constructs or inspects, one
  constructor per Arrow type class. The factory functions of the source
  (\<^verbatim>\<open>null()\<close>, \<^verbatim>\<open>int64()\<close>, \<^verbatim>\<open>float64()\<close>, \<^verbatim>\<open>binary()\<close>, \<^verbatim>\<open>utf8()\<close>) return
  \<open>NullType\<close>, \<open>Int64Type\<close>, \<open>DoubleType\<close>, \<open>BinaryType\<close> and \<open>StringType\<close>.
\<close>

datatype DataType =
    NullType
  | BooleanType
  | Int32Type
  | Int64Type
  | FloatType
  | DoubleType
  | StringType
  | BinaryType
  | ListType DataType
  | MapType DataType DataType
  | DenseUnionType "(string \<times> DataType) list"

text \<open>
  \<^verbatim>\<open>std::toupper\<close> in the classic locale: only the ASCII letters a..z change.
\<close>

definition toupper :: "char \<Rightarrow> char" where
  "toupper c =
     (if CHR ''a'' \<le> c \<and> c \<le> CHR ''z'' then char_of (of_char c - (32::nat)) else c)"

text \<open>\<^verbatim>\<open>boost::algorithm::is_iequal\<close>: equality of the upper-cased characters.\<close>

definition is_iequal :: "char \<Rightarrow> char \<Rightarrow> bool" where
  "is_iequal a b = (toupper a = toupper b)"

text \<open>
  \<^verbatim>\<open>boost::algorithm::equals\<close> and \<^verbatim>\<open>boost::algorithm::starts_with\<close> walk both
  ranges together and stop at the first pair the comparator rejects;
  \<open>equals\<close> then wants both ranges exhausted, \<open>starts_with\<close> only the test.
\<close>

fun equals :: "(char \<Rightarrow> char \<Rightarrow> bool) \<Rightarrow> string \<Rightarrow> string \<Rightarrow> bool" where
  "equals Comp (x # xs) (y # ys) = (if \<not> Comp x y then False else equals Comp xs ys)"
| "equals Comp [] [] = True"
| "equals Comp [] (y # ys) = False"
| "equals Comp (x # xs) [] = False"

fun starts_with :: "(char \<Rightarrow> char \<Rightarrow> bool) \<Rightarrow> string \<Rightarrow> string \<Rightarrow> bool" where
  "starts_with Comp (x # xs) (y # ys) =
     (if \<not> Comp x y then False else starts_with Comp xs ys)"
| "starts_with Comp xs [] = True"
| "starts_with Comp [] (y # ys) = False"

definition iequals :: "string \<Rightarrow> string \<Rightarrow> bool" where
  "iequals Input Test = equals is_iequal Input Test"

definition istarts_with :: "string \<Rightarrow> string \<Rightarrow> bool" where
  "istarts_with Input Test = starts_with is_iequal Input Test"

text \<open>
  \<^verbatim>\<open>GetArrowType(const char* sqlite_type)\<close>; the null pointer is \<open>None\<close>.
\<close>

definition GetArrowType :: "string option \<Rightarrow> DataType" where
  "GetArrowType sqlite_type =
     (case sqlite_type of
        None \<Rightarrow> NullType
      | Some t \<Rightarrow>
          if iequals t ''int'' \<or> iequals t ''integer'' then Int64Type
          else if iequals t ''REAL'' then DoubleType
          else if iequals t ''BLOB'' then BinaryType
          else if iequals t ''TEXT'' \<or> istarts_with t ''char'' \<or> istarts_with t ''varchar''
          then StringType
          else NullType)"

text \<open>
  The type mapper as the specification words it: the rules are read on the
  case-folded name, in priority order.
\<close>

definition casefold :: "string \<Rightarrow> string" where
  "casefold s = map toupper s"

definition type_mapper_rules :: "string option \<Rightarrow> DataType" where
  "type_mapper_rules name =
     (case name of
        None \<Rightarrow> NullType
      | Some t \<Rightarrow>
          if casefold t = ''INT'' \<or> casefold t = ''INTEGER'' then Int64Type
          else if casefold t = ''REAL'' then DoubleType
          else if casefold t = ''BLOB'' then BinaryType
          else if casefold t = ''TEXT'' \<or> prefix ''CHAR'' (casefold t)
                  \<or> prefix ''VARCHAR'' (casefold t)
          then StringType
          else NullType)"

section \<open>The metadata query builder: GetTables\<close>

text \<open>
  \<^verbatim>\<open>pb::sql::CommandGetTables\<close>: three optional fields (\<^verbatim>\<open>has_x()\<close> is \<open>x \<noteq> None\<close>),
  the repeated field \<^verbatim>\<open>table_types\<close> and the flag \<^verbatim>\<open>include_schema\<close>.
\<close>

record CommandGetTables =
  catalog :: "string option"
  schema_filter_pattern :: "string option"
  table_name_filter_pattern :: "string option"
  table_types :: "string list"
  include_schema :: bool

text \<open>
  The loop \<^verbatim>\<open>for (int i = 0; i < size; i++)\<close> of \<^verbatim>\<open>PrepareQueryForGetTables\<close>
  over the requested table types; \<open>sz\<close> is the source's \<^verbatim>\<open>size\<close>, the stream
  \<^verbatim>\<open>table_query\<close> is passed along. The apostrophe is written \<open>CHR 0x27\<close>.
\<close>

function table_types_loop :: "string list \<Rightarrow> int \<Rightarrow> int \<Rightarrow> string \<Rightarrow> string" where
  "table_types_loop types sz i table_query =
     (if i < sz then
        (let table_query = table_query @ [CHR 0x27] @ types ! nat i @ [CHR 0x27];
             table_query = (if sz - 1 \<noteq> i then table_query @ '','' else table_query)
         in table_types_loop types sz (i + 1) table_query)
      else table_query)"
  by pat_completeness auto
termination
  by (relation "measure (\<lambda>(types, sz, i, table_query). nat (sz - i))") auto

declare table_types_loop.simps [simp del]

text \<open>\<^verbatim>\<open>PrepareQueryForGetTables(const pb::sql::CommandGetTables& command)\<close>.\<close>

definition PrepareQueryForGetTables :: "CommandGetTables \<Rightarrow> string" where
  "PrepareQueryForGetTables command =
     (let table_query =
            ''SELECT null as catalog_name, null as schema_name, name as '' @
            ''table_name, type as table_type FROM sqlite_master where 1=1'';
          table_query =
            (case catalog command of
               Some c \<Rightarrow> table_query @ '' and catalog_name='' @ [CHR 0x27] @ c @ [CHR 0x27]
             | None \<Rightarrow> table_query);
          table_query =
            (case schema_filter_pattern command of
               Some p \<Rightarrow> table_query @ '' and schema_name LIKE '' @ [CHR 0x27] @ p @ [CHR 0x27]
             | None \<Rightarrow> table_query);
          table_query =
            (case table_name_filter_pattern command of
               Some p \<Rightarrow> table_query @ '' and table_name LIKE '' @ [CHR 0x27] @ p @ [CHR 0x27]
             | None \<Rightarrow> table_query);
          table_query =
            (if table_types command \<noteq> [] then
               (let types = table_types command;
                    table_query = table_query @ '' and table_type IN ('';
                    sz = int (length types);
                    table_query = table_types_loop types sz 0 table_query
                in table_query @ '')'')
             else table_query)
      in table_query @ '' order by table_name'')"

text \<open>
  The \<open>IN\<close> list as the specification words it: each requested type as a
  quoted literal, separated by commas.
\<close>

fun quoted_list :: "string list \<Rightarrow> string" where
  "quoted_list [] = []"
| "quoted_list [t] = [CHR 0x27] @ t @ [CHR 0x27]"
| "quoted_list (t # ts) = [CHR 0x27] @ t @ [CHR 0x27] @ '','' @ quoted_list ts"

text \<open>The sample command of the specification: catalog c, types table and view.\<close>

definition example_get_tables :: CommandGetTables where
  "example_get_tables =
     \<lparr>catalog = Some ''c'', schema_filter_pattern = None,
      table_name_filter_pattern = None, table_types = [''table'', ''view''],
      include_schema = False\<rparr>"

section \<open>The metadata query builder: imported and exported keys\<close>

text \<open>
  \<^verbatim>\<open>PrepareQueryForGetImportedOrExportedKeys(const std::string& filter)\<close>: the
  two raw string literals of the source, character for character (line
  breaks included), around the spliced filter.
\<close>

definition PrepareQueryForGetImportedOrExportedKeys :: "string \<Rightarrow> string" where
  \<open>PrepareQueryForGetImportedOrExportedKeys filter' =
     ''SELECT * FROM (SELECT NULL AS pk_catalog_name,
    NULL AS pk_schema_name,
    p."table" AS pk_table_name,
    p."to" AS pk_column_name,
    NULL AS fk_catalog_name,
    NULL AS fk_schema_name,
    m.name AS fk_table_name,
    p."from" AS fk_column_name,
    p.seq AS key_sequence,
    NULL AS pk_key_name,
    NULL AS fk_key_name,
    CASE
        WHEN p.on_update = 'CASCADE' THEN 0
        WHEN p.on_update = 'RESTRICT' THEN 1
        WHEN p.on_update = 'SET NULL' THEN 2
        WHEN p.on_update = 'NO ACTION' THEN 3
        WHEN p.on_update = 'SET DEFAULT' THEN 4
    END AS update_rule,
    CASE
        WHEN p.on_delete = 'CASCADE' THEN 0
        WHEN p.on_delete = 'RESTRICT' THEN 1
        WHEN p.on_delete = 'SET NULL' THEN 2
        WHEN p.on_delete = 'NO ACTION' THEN 3
        WHEN p.on_delete = 'SET DEFAULT' THEN 4
    END AS delete_rule
  FROM sqlite_master m
  JOIN pragma_foreign_key_list(m.name) p ON m.name != p."table"
  WHERE m.type = 'table') WHERE '' @
     filter' @ '' ORDER BY
  pk_catalog_name, pk_schema_name, pk_table_name, pk_key_name, key_sequence''\<close>

section \<open>Status, exceptions and the prepared-statement handle\<close>

text \<open>
  \<^verbatim>\<open>arrow::Status\<close>: a code and a message. \<^verbatim>\<open>Status::OK()\<close> has no message;
  \<^verbatim>\<open>Status::Invalid(args...)\<close> concatenates its arguments into the message.
\<close>

datatype StatusCode =
    OK | OutOfMemory | KeyError | TypeError | Invalid | IOError | CapacityError
  | IndexError | Cancelled | UnknownError | NotImplemented | SerializationError
  | AlreadyExists

datatype Status = Status (code: StatusCode) (message: string)

definition Status_OK :: Status where
  "Status_OK = Status OK []"

definition Status_Invalid :: "string list \<Rightarrow> Status" where
  "Status_Invalid args = Status Invalid (concat args)"

text \<open>
  A handler either returns (a \<open>Status\<close>, its out-parameters, the server) or an
  exception leaves it: \<open>Inl\<close> is the exception, \<open>Inr\<close> what was returned.
\<close>

datatype exception = bad_lexical_cast

text \<open>
  \<^verbatim>\<open>boost::uuids::uuid\<close> is 16 bytes. \<^verbatim>\<open>boost::uuids::to_string\<close> writes each byte
  as two lower-case hex digits, with a dash after the bytes 3, 5, 7 and 9.
\<close>

type_synonym uuid = "8 word list"

definition to_char :: "nat \<Rightarrow> char" where
  "to_char i =
     (if i \<le> 9 then char_of (of_char CHR ''0'' + i)
      else char_of (of_char CHR ''a'' + (i - 10)))"

fun to_chars :: "nat \<Rightarrow> 8 word list \<Rightarrow> string" where
  "to_chars i [] = []"
| "to_chars i (b # bs) =
     (let hi = unat (drop_bit 4 b AND 0x0F);
          lo = unat (b AND 0x0F)
      in to_char hi # to_char lo #
         (if i = 3 \<or> i = 5 \<or> i = 7 \<or> i = 9 then ''-'' else []) @ to_chars (i + 1) bs)"

definition to_string :: "uuid \<Rightarrow> string" where
  "to_string u = to_chars 0 u"

text \<open>
  \<^verbatim>\<open>boost::lexical_cast<boost::uuids::uuid>\<close> reads the text with the stream
  extraction operator of \<^verbatim>\<open>uuid_io.hpp\<close> and throws \<^verbatim>\<open>bad_lexical_cast\<close> when the
  extraction fails or input is left over. The operator reads, for each of the
  16 bytes, two hex digits (upper-cased, then looked up in
  \<^verbatim>\<open>"0123456789ABCDEF"\<close> with \<^verbatim>\<open>std::find\<close>), and a dash after the bytes 3, 5, 7
  and 9. \<open>find_distance\<close> is \<^verbatim>\<open>std::distance(begin, std::find(begin, end, c))\<close>,
  \<open>None\<close> when the character is not found. \<open>lexical_cast\<close> is \<open>None\<close> where
  the source throws.
\<close>

fun find_distance :: "char list \<Rightarrow> char \<Rightarrow> nat option" where
  "find_distance [] c = None"
| "find_distance (x # xs) c = (if x = c then Some 0 else map_option Suc (find_distance xs c))"

definition xdigit :: "char \<Rightarrow> nat option" where
  "xdigit c = find_distance ''0123456789ABCDEF'' (toupper c)"

fun read_uuid :: "nat \<Rightarrow> nat \<Rightarrow> string \<Rightarrow> (8 word list \<times> string) option" where
  "read_uuid 0 i is = Some ([], is)"
| "read_uuid (Suc n) i is =
     (case is of
        c1 # c2 # is \<Rightarrow>
          (case xdigit c1 of
             None \<Rightarrow> None
           | Some f1 \<Rightarrow>
               (case xdigit c2 of
                  None \<Rightarrow> None
                | Some f2 \<Rightarrow>
                    (let byte = push_bit 4 (word_of_nat f1) OR word_of_nat f2 in
                     if i = 3 \<or> i = 5 \<or> i = 7 \<or> i = 9 then
                       (case is of
                          c # is \<Rightarrow>
                            if c \<noteq> CHR ''-'' then None
                            else map_option (\<lambda>(data, is). (byte # data, is))
                                   (read_uuid n (i + 1) is)
                        | [] \<Rightarrow> None)
                     else map_option (\<lambda>(data, is). (byte # data, is))
                            (read_uuid n (i + 1) is))))
      | _ \<Rightarrow> None)"

definition lexical_cast :: "string \<Rightarrow> uuid option" where
  "lexical_cast s = (case read_uuid 16 0 s of Some (u, []) \<Rightarrow> Some u | _ \<Rightarrow> None)"

section \<open>Schemas, scalars and record batches\<close>

text \<open>\<^verbatim>\<open>arrow::field(name, type)\<close>; a schema is the list of its fields.\<close>

datatype Field = Field (field_name: string) (field_type: DataType)

type_synonym Schema = "Field list"

text \<open>
  The scalars a cell of a parameter column can hold. 64-bit and 32-bit
  integers and the IEEE bit patterns of floats are words; strings and binary
  buffers are byte strings. \<open>scalar_type\<close> is the scalar's \<^verbatim>\<open>type\<close> member.
\<close>

datatype Scalar =
    BooleanScalar bool
  | Int32Scalar "32 word"
  | Int64Scalar "64 word"
  | FloatScalar "32 word"
  | DoubleScalar "64 word"
  | StringScalar string
  | BinaryScalar string
  | ListScalar DataType "Scalar list"
  | MapScalar DataType DataType "(Scalar \<times> Scalar) list"

fun scalar_type :: "Scalar \<Rightarrow> DataType" where
  "scalar_type (BooleanScalar v) = BooleanType"
| "scalar_type (Int32Scalar v) = Int32Type"
| "scalar_type (Int64Scalar v) = Int64Type"
| "scalar_type (FloatScalar v) = FloatType"
| "scalar_type (DoubleScalar v) = DoubleType"
| "scalar_type (StringScalar v) = StringType"
| "scalar_type (BinaryScalar v) = BinaryType"
| "scalar_type (ListScalar t v) = ListType t"
| "scalar_type (MapScalar k t v) = MapType k t"

text \<open>
  A column of a batch is the list of its cells. The parameter columns are
  dense unions (the parameter schema's type); a cell is the scalar the union
  holds, the source's \<^verbatim>\<open>holder\<close>. \<^verbatim>\<open>Array::GetScalar(i)\<close> fails out of range.
\<close>

type_synonym Array = "Scalar list"

record RecordBatch =
  schema :: Schema
  num_rows :: int
  columns :: "Array list"

definition num_columns :: "RecordBatch \<Rightarrow> int" where
  "num_columns record_batch = int (length (columns record_batch))"

definition GetScalar :: "Array \<Rightarrow> int \<Rightarrow> Status + Scalar" where
  "GetScalar column i =
     (if 0 \<le> i \<and> i < int (length column) then Inr (column ! nat i)
      else Inl (Status IndexError ''index out of bounds''))"

datatype 'r FlightDataStream = RecordBatchStream 'r

datatype ResultStream = SimpleResultStream "string list"

section \<open>The compiled statement and its bind calls\<close>

text \<open>
  The calls the binder makes on the \<^verbatim>\<open>sqlite3_stmt\<close>, with their arguments:
  the 1-based position, the value or the bytes the pointer refers to, the
  byte count and the destructor argument. A C \<^verbatim>\<open>double\<close> is given by its bits,
  or as the widening of a \<^verbatim>\<open>float\<close> given by its bits.
\<close>

datatype destructor = SQLITE_STATIC | SQLITE_TRANSIENT

datatype c_double = Double "64 word" | FloatToDouble "32 word"

datatype bind_call =
    sqlite3_bind_int64 int "64 word"
  | sqlite3_bind_double int c_double
  | sqlite3_bind_text int string int destructor
  | sqlite3_bind_blob int string int destructor

text \<open>
  \<^verbatim>\<open>SqliteStatement\<close> wraps the engine's compiled statement. What the model keeps
  of it: the engine's answers to \<^verbatim>\<open>sqlite3_bind_parameter_count\<close> and
  \<^verbatim>\<open>sqlite3_bind_parameter_name\<close> (\<open>None\<close> is the null pointer), and the bind
  calls made on it so far, in order.
\<close>

record SqliteStatement =
  sqlite3_bind_parameter_count :: int
  sqlite3_bind_parameter_name :: "int \<Rightarrow> string option"
  bind_calls :: "bind_call list"

definition bind :: "bind_call \<Rightarrow> SqliteStatement \<Rightarrow> SqliteStatement" where
  "bind call stmt = stmt\<lparr>bind_calls := bind_calls stmt @ [call]\<rparr>"

text \<open>
  \<^verbatim>\<open>std::string::c_str\<close> (the bytes and a terminating NUL), \<^verbatim>\<open>strlen\<close> on such a
  buffer, and \<^verbatim>\<open>static_cast<int>\<close> of a size to the 32-bit \<^verbatim>\<open>int\<close>.
\<close>

definition c_str :: "string \<Rightarrow> string" where
  "c_str s = s @ [CHR 0x00]"

definition strlen :: "string \<Rightarrow> nat" where
  "strlen p = length (takeWhile (\<lambda>c. c \<noteq> CHR 0x00) p)"

definition static_cast_int :: "int \<Rightarrow> int" where
  "static_cast_int n = sint (word_of_int n :: 32 word)"

text \<open>
  \<^verbatim>\<open>std::to_string(int)\<close>: the decimal digits, with a minus sign for a negative
  number.
\<close>

fun digits :: "nat \<Rightarrow> string" where
  "digits n =
     (if n < 10 then [char_of (of_char CHR ''0'' + n)]
      else digits (n div 10) @ [char_of (of_char CHR ''0'' + n mod 10)])"

declare digits.simps [simp del]

definition std_to_string :: "int \<Rightarrow> string" where
  "std_to_string i = (if i < 0 then ''-'' @ digits (nat (- i)) else digits (nat i))"

section \<open>The server and its handlers\<close>

text \<open>
  The state of \<^verbatim>\<open>SQLiteFlightSqlServer\<close>: the registry \<^verbatim>\<open>prepared_statements_\<close>
  from handle value to statement, and the SQL texts handed to the engine
  through \<^verbatim>\<open>db_\<close> so far. The statements are shared objects: a bind call on a
  registered statement changes the registry's entry.
\<close>

record SQLiteFlightSqlServer =
  prepared_statements :: "uuid \<rightharpoonup> SqliteStatement"
  db_statements :: "string list"

text \<open>
  \<^verbatim>\<open>DoGetCatalogs\<close> and \<^verbatim>\<open>DoGetSchemas\<close>. The fixed schemas
  \<^verbatim>\<open>SqlSchema::GetCatalogsSchema()\<close> and \<^verbatim>\<open>SqlSchema::GetSchemasSchema()\<close> are
  parameters; a \<^verbatim>\<open>StringBuilder\<close> finished without appends is the empty column;
  \<^verbatim>\<open>RecordBatchReader::Make\<close> of a list of batches is that list. The command of
  \<^verbatim>\<open>DoGetSchemas\<close> carries its two optional filters, \<^verbatim>\<open>catalog\<close> and
  \<^verbatim>\<open>schema_filter_pattern\<close>.
\<close>

datatype CommandGetSchemas = CommandGetSchemas "string option" "string option"

definition DoGetCatalogs ::
  "Schema \<Rightarrow> SQLiteFlightSqlServer
     \<Rightarrow> Status \<times> RecordBatch list FlightDataStream option \<times> SQLiteFlightSqlServer" where
  "DoGetCatalogs GetCatalogsSchema this =
     (let schema = GetCatalogsSchema;
          catalog_name = [];
          batch = \<lparr>schema = schema, num_rows = 0, columns = [catalog_name]\<rparr>;
          reader = [batch]
      in (Status_OK, Some (RecordBatchStream reader), this))"

definition DoGetSchemas ::
  "Schema \<Rightarrow> SQLiteFlightSqlServer \<Rightarrow> CommandGetSchemas
     \<Rightarrow> Status \<times> RecordBatch list FlightDataStream option \<times> SQLiteFlightSqlServer" where
  "DoGetSchemas GetSchemasSchema this command =
     (let schema = GetSchemasSchema;
          catalog_name = [];
          schema_name = [];
          batch = \<lparr>schema = schema, num_rows = 0, columns = [catalog_name, schema_name]\<rparr>;
          reader = [batch]
      in (Status_OK, Some (RecordBatchStream reader), this))"

subsection \<open>Creating a prepared statement\<close>

text \<open>
  The loop \<^verbatim>\<open>for (int i = 0; i < parameter_count; i++)\<close> of
  \<^verbatim>\<open>CreatePreparedStatement\<close> that names the parameter fields.
\<close>

function parameter_fields_loop ::
  "SqliteStatement \<Rightarrow> DataType \<Rightarrow> int \<Rightarrow> int \<Rightarrow> Field list \<Rightarrow> Field list" where
  "parameter_fields_loop stmt dense_union_type parameter_count i parameter_fields =
     (if i < parameter_count then
        (let parameter_name_chars = sqlite3_bind_parameter_name stmt (i + 1);
             parameter_name =
               (case parameter_name_chars of
                  None \<Rightarrow> ''parameter_'' @ std_to_string (i + 1)
                | Some chars \<Rightarrow> chars)
         in parameter_fields_loop stmt dense_union_type parameter_count (i + 1)
              (parameter_fields @ [Field parameter_name dense_union_type]))
      else parameter_fields)"
  by pat_completeness auto
termination
  by (relation "measure (\<lambda>(stmt, t, parameter_count, i, fs). nat (parameter_count - i))") auto

declare parameter_fields_loop.simps [simp del]

text \<open>
  \<^verbatim>\<open>pb::sql::ActionCreatePreparedStatementResult\<close>, the message the handler
  fills with \<^verbatim>\<open>set_dataset_schema\<close>, \<^verbatim>\<open>set_parameter_schema\<close> and
  \<^verbatim>\<open>set_prepared_statement_handle\<close>.
\<close>

record ActionCreatePreparedStatementResult =
  result_dataset_schema :: string
  result_parameter_schema :: string
  result_prepared_statement_handle :: string

text \<open>
  \<^verbatim>\<open>CreatePreparedStatement\<close>. Parameters stand for what lies outside the file:
  \<^verbatim>\<open>SqliteStatement::Create(db_, query, &statement)\<close> (the engine compiles the
  text or rejects it), \<^verbatim>\<open>SqliteStatement::GetSchema\<close>, \<^verbatim>\<open>ipc::SerializeSchema\<close>,
  \<^verbatim>\<open>GetUnknownColumnDataType()\<close>, and \<open>uuid\<close>, the value \<^verbatim>\<open>uuid_generator_()\<close>
  draws in this call. The statement enters the registry right after it is
  compiled, before the schemas are derived.
\<close>

definition CreatePreparedStatement ::
  "(string \<Rightarrow> Status + SqliteStatement) \<Rightarrow> (SqliteStatement \<Rightarrow> Status + Schema)
     \<Rightarrow> (Schema \<Rightarrow> Status + string) \<Rightarrow> DataType \<Rightarrow> uuid
     \<Rightarrow> SQLiteFlightSqlServer \<Rightarrow> string
     \<Rightarrow> Status \<times> ActionCreatePreparedStatementResult option \<times> SQLiteFlightSqlServer" where
  "CreatePreparedStatement SqliteStatement_Create GetSchema SerializeSchema
       GetUnknownColumnDataType uuid this query =
     (let this = this\<lparr>db_statements := db_statements this @ [query]\<rparr> in
      case SqliteStatement_Create query of
        Inl st \<Rightarrow> (st, None, this)
      | Inr statement \<Rightarrow>
          (let this = this\<lparr>prepared_statements := (prepared_statements this)(uuid \<mapsto> statement)\<rparr> in
           case GetSchema statement of
             Inl st \<Rightarrow> (st, None, this)
           | Inr dataset_schema \<Rightarrow>
               (case SerializeSchema dataset_schema of
                  Inl st \<Rightarrow> (st, None, this)
                | Inr serialized_dataset_schema \<Rightarrow>
                    (let stmt = statement;
                         parameter_count = sqlite3_bind_parameter_count stmt;
                         dense_union_type = GetUnknownColumnDataType;
                         parameter_fields =
                           parameter_fields_loop stmt dense_union_type parameter_count 0 [];
                         parameter_schema = parameter_fields
                     in case SerializeSchema parameter_schema of
                          Inl st \<Rightarrow> (st, None, this)
                        | Inr serialized_parameter_schema \<Rightarrow>
                            (Status_OK,
                             Some \<lparr>result_dataset_schema = serialized_dataset_schema,
                                   result_parameter_schema = serialized_parameter_schema,
                                   result_prepared_statement_handle = to_string uuid\<rparr>,
                             this)))))"

subsection \<open>Resolving and closing a handle\<close>

text \<open>
  Each handler that takes a handle starts the same way: \<^verbatim>\<open>lexical_cast\<close> of the
  handle text, which may throw, then \<^verbatim>\<open>prepared_statements_.find(uuid)\<close>, and
  \<^verbatim>\<open>Status::Invalid("Prepared statement not found")\<close> when there is no entry.
\<close>

definition ClosePreparedStatement ::
  "SQLiteFlightSqlServer \<Rightarrow> string
     \<Rightarrow> exception + Status \<times> ResultStream option \<times> SQLiteFlightSqlServer" where
  "ClosePreparedStatement this prepared_statement_handle =
     (case lexical_cast prepared_statement_handle of
        None \<Rightarrow> Inl bad_lexical_cast
      | Some uuid \<Rightarrow>
          (case prepared_statements this uuid of
             Some search \<Rightarrow>
               Inr (Status_OK, Some (SimpleResultStream []),
                    this\<lparr>prepared_statements := (prepared_statements this)(uuid := None)\<rparr>)
           | None \<Rightarrow>
               Inr (Status_Invalid [''Prepared statement not found''], None, this)))"

text \<open>
  \<^verbatim>\<open>GetFlightInfoForCommand\<close>; \<open>command\<close> is the serialized packed command, the
  ticket of the single endpoint, and \<^verbatim>\<open>FlightInfo::Make\<close> a parameter.
\<close>

definition GetFlightInfoForCommand ::
  "(Schema \<Rightarrow> 'd \<Rightarrow> string list \<Rightarrow> int \<Rightarrow> int \<Rightarrow> Status + 'i) \<Rightarrow> 'd \<Rightarrow> string \<Rightarrow> Schema
     \<Rightarrow> Status \<times> 'i option" where
  "GetFlightInfoForCommand FlightInfo_Make descriptor command schema' =
     (let endpoints = [command] in
      case FlightInfo_Make schema' descriptor endpoints (- 1) (- 1) of
        Inl st \<Rightarrow> (st, None)
      | Inr result \<Rightarrow> (Status_OK, Some result))"

definition GetFlightInfoPreparedStatement ::
  "(SqliteStatement \<Rightarrow> Status + Schema)
     \<Rightarrow> (Schema \<Rightarrow> 'd \<Rightarrow> string list \<Rightarrow> int \<Rightarrow> int \<Rightarrow> Status + 'i) \<Rightarrow> (string \<Rightarrow> string)
     \<Rightarrow> SQLiteFlightSqlServer \<Rightarrow> string \<Rightarrow> 'd
     \<Rightarrow> exception + Status \<times> 'i option" where
  "GetFlightInfoPreparedStatement GetSchema FlightInfo_Make SerializeAsString
       this prepared_statement_handle descriptor =
     (case lexical_cast prepared_statement_handle of
        None \<Rightarrow> Inl bad_lexical_cast
      | Some uuid \<Rightarrow>
          (case prepared_statements this uuid of
             None \<Rightarrow> Inr (Status_Invalid [''Prepared statement not found''], None)
           | Some statement \<Rightarrow>
               (case GetSchema statement of
                  Inl st \<Rightarrow> Inr (st, None)
                | Inr schema' \<Rightarrow>
                    Inr (GetFlightInfoForCommand FlightInfo_Make descriptor
                           (SerializeAsString prepared_statement_handle) schema'))))"

text \<open>
  \<^verbatim>\<open>DoGetPreparedStatement\<close>; \<^verbatim>\<open>SqliteStatementBatchReader::Create\<close> is a
  parameter.
\<close>

definition DoGetPreparedStatement ::
  "(SqliteStatement \<Rightarrow> Status + 'r) \<Rightarrow> SQLiteFlightSqlServer \<Rightarrow> string
     \<Rightarrow> exception + Status \<times> 'r FlightDataStream option" where
  "DoGetPreparedStatement SqliteStatementBatchReader_Create this prepared_statement_handle =
     (case lexical_cast prepared_statement_handle of
        None \<Rightarrow> Inl bad_lexical_cast
      | Some uuid \<Rightarrow>
          (case prepared_statements this uuid of
             None \<Rightarrow> Inr (Status_Invalid [''Prepared statement not found''], None)
           | Some statement \<Rightarrow>
               (case SqliteStatementBatchReader_Create statement of
                  Inl st \<Rightarrow> Inr (st, None)
                | Inr reader \<Rightarrow> Inr (Status_OK, Some (RecordBatchStream reader)))))"

subsection \<open>Binding parameters\<close>

text \<open>
  The \<^verbatim>\<open>switch (holder->type->id())\<close> of \<^verbatim>\<open>DoPutPreparedStatement\<close> for the cell
  of column \<open>c\<close>: \<open>Inr\<close> is the statement after the bind call of the matching
  case, \<open>Inl\<close> the status the \<^verbatim>\<open>default\<close> case returns. The case labels are
  \<^verbatim>\<open>Type::INT64\<close>, \<^verbatim>\<open>Type::FLOAT\<close>, \<^verbatim>\<open>Type::STRING\<close> and \<^verbatim>\<open>Type::BINARY\<close>;
  \<^verbatim>\<open>Type::FLOAT\<close> is the 32-bit float, whose value the case widens to
  \<^verbatim>\<open>double\<close>. \<^verbatim>\<open>DataType::ToString\<close> is a parameter. The results of the bind
  calls are not looked at.
\<close>

definition bind_holder ::
  "(DataType \<Rightarrow> string) \<Rightarrow> int \<Rightarrow> Scalar \<Rightarrow> SqliteStatement \<Rightarrow> Status + SqliteStatement" where
  "bind_holder ToString c holder stmt =
     (case holder of
        Int64Scalar v \<Rightarrow> Inr (bind (sqlite3_bind_int64 (c + 1) v) stmt)
      | FloatScalar v \<Rightarrow> Inr (bind (sqlite3_bind_double (c + 1) (FloatToDouble v)) stmt)
      | StringScalar buffer \<Rightarrow>
          (let string = buffer;
               v = c_str string
           in Inr (bind (sqlite3_bind_text (c + 1) v (static_cast_int (int (strlen v)))
                           SQLITE_TRANSIENT) stmt))
      | BinaryScalar buffer \<Rightarrow>
          Inr (bind (sqlite3_bind_blob (c + 1) buffer (static_cast_int (int (length buffer)))
                       SQLITE_TRANSIENT) stmt)
      | _ \<Rightarrow>
          Inl (Status_Invalid
                 [''Received unsupported data type: '', ToString (scalar_type holder)]))"

text \<open>
  The loops over the columns of row \<open>i\<close> and over the rows of a batch. The
  first component of the result is the status of an early return, \<open>None\<close>
  when the loop ran to its end.
\<close>

function columns_loop ::
  "(DataType \<Rightarrow> string) \<Rightarrow> RecordBatch \<Rightarrow> int \<Rightarrow> int \<Rightarrow> int \<Rightarrow> SqliteStatement
     \<Rightarrow> Status option \<times> SqliteStatement" where
  "columns_loop ToString record_batch i n_columns c stmt =
     (if c < n_columns then
        (let column = columns record_batch ! nat c in
         case GetScalar column i of
           Inl st \<Rightarrow> (Some st, stmt)
         | Inr holder \<Rightarrow>
             (case bind_holder ToString c holder stmt of
                Inl st \<Rightarrow> (Some st, stmt)
              | Inr stmt \<Rightarrow> columns_loop ToString record_batch i n_columns (c + 1) stmt))
      else (None, stmt))"
  by pat_completeness auto
termination
  by (relation "measure (\<lambda>(ts, b, i, n_columns, c, stmt). nat (n_columns - c))") auto

declare columns_loop.simps [simp del]

function rows_loop ::
  "(DataType \<Rightarrow> string) \<Rightarrow> RecordBatch \<Rightarrow> int \<Rightarrow> int \<Rightarrow> int \<Rightarrow> SqliteStatement
     \<Rightarrow> Status option \<times> SqliteStatement" where
  "rows_loop ToString record_batch n_rows n_columns i stmt =
     (if i < n_rows then
        (case columns_loop ToString record_batch i n_columns 0 stmt of
           (Some st, stmt) \<Rightarrow> (Some st, stmt)
         | (None, stmt) \<Rightarrow> rows_loop ToString record_batch n_rows n_columns (i + 1) stmt)
      else (None, stmt))"
  by pat_completeness auto
termination
  by (relation "measure (\<lambda>(ts, b, n_rows, n_columns, i, stmt). nat (n_rows - i))") auto

declare rows_loop.simps [simp del]

text \<open>
  The \<^verbatim>\<open>while (true)\<close> loop over the reader: each element is the outcome of one
  \<^verbatim>\<open>reader->Next(&chunk)\<close>, a failure or a batch; after the last element the
  reader yields the null batch, which ends the loop.
\<close>

fun reader_loop ::
  "(DataType \<Rightarrow> string) \<Rightarrow> (Status + RecordBatch) list \<Rightarrow> SqliteStatement
     \<Rightarrow> Status \<times> SqliteStatement" where
  "reader_loop ToString [] stmt = (Status_OK, stmt)"
| "reader_loop ToString (Inl st # reader) stmt = (st, stmt)"
| "reader_loop ToString (Inr record_batch # reader) stmt =
     (let n_rows = num_rows record_batch;
          n_columns = num_columns record_batch
      in case rows_loop ToString record_batch n_rows n_columns 0 stmt of
           (Some st, stmt) \<Rightarrow> (st, stmt)
         | (None, stmt) \<Rightarrow> reader_loop ToString reader stmt)"

definition DoPutPreparedStatement ::
  "(DataType \<Rightarrow> string) \<Rightarrow> SQLiteFlightSqlServer \<Rightarrow> string \<Rightarrow> (Status + RecordBatch) list
     \<Rightarrow> exception + Status \<times> SQLiteFlightSqlServer" where
  "DoPutPreparedStatement ToString this prepared_statement_handle reader =
     (case lexical_cast prepared_statement_handle of
        None \<Rightarrow> Inl bad_lexical_cast
      | Some uuid \<Rightarrow>
          (case prepared_statements this uuid of
             None \<Rightarrow> Inr (Status_Invalid [''Prepared statement not found''], this)
           | Some statement \<Rightarrow>
               (case reader_loop ToString reader statement of
                  (st, stmt) \<Rightarrow>
                    Inr (st, this\<lparr>prepared_statements :=
                                   (prepared_statements this)(uuid \<mapsto> stmt)\<rparr>))))"

section \<open>Sample values\<close>

text \<open>
  A handle value, the statement the engine compiles from
  \<^verbatim>\<open>SELECT * FROM intTable WHERE value = ?1 AND keyName = ?\<close> (two parameters,
  the first named by its text, the second unnamed), and servers without and
  with that statement registered.
\<close>

definition example_uuid :: uuid where
  "example_uuid =
     [0x12, 0x34, 0x56, 0x78, 0x9a, 0xbc, 0xde, 0xf0, 0x0f, 0x1e, 0x2d, 0x3c, 0x4b, 0x5a, 0x69, 0x78]"

definition example_statement :: SqliteStatement where
  "example_statement =
     \<lparr>sqlite3_bind_parameter_count = 2,
      sqlite3_bind_parameter_name = (\<lambda>i. if i = 1 then Some ''?1'' else None),
      bind_calls = []\<rparr>"

definition empty_server :: SQLiteFlightSqlServer where
  "empty_server = \<lparr>prepared_statements = Map.empty, db_statements = []\<rparr>"

definition example_server :: SQLiteFlightSqlServer where
  "example_server =
     \<lparr>prepared_statements = [example_uuid \<mapsto> example_statement], db_statements = []\<rparr>"

text \<open>Stand-ins for the collaborators, for the sample runs.\<close>

definition example_compile :: "string \<Rightarrow> Status + SqliteStatement" where
  "example_compile query = Inr example_statement"

definition example_get_schema :: "SqliteStatement \<Rightarrow> Status + Schema" where
  "example_get_schema statement = Inr [Field ''id'' Int64Type, Field ''keyName'' StringType]"

definition example_serialize :: "Schema \<Rightarrow> Status + string" where
  "example_serialize s = Inr (concat (map (\<lambda>f. field_name f @ '';'') s))"

definition example_reader_create :: "SqliteStatement \<Rightarrow> Status + SqliteStatement" where
  "example_reader_create statement = Inr statement"

definition example_to_string :: "DataType \<Rightarrow> string" where
  "example_to_string t =
     (if t = DoubleType then ''double'' else if t = BooleanType then ''bool'' else ''other'')"

text \<open>
  A parameter batch of one row for the two parameters: the string \<open>abc\<close> and
  the 64-bit float 1.5 (by its bits), both cells of the unknown-value union.
\<close>

definition example_parameters :: RecordBatch where
  "example_parameters =
     \<lparr>schema = [Field ''?1'' (DenseUnionType []), Field ''parameter_2'' (DenseUnionType [])],
      num_rows = 1,
      columns = [[StringScalar ''abc''], [DoubleScalar 0x3FF8000000000000]]\<rparr>"

text \<open>Stand-ins for \<^verbatim>\<open>FlightInfo::Make\<close> and for the serialization of the command.\<close>

definition example_flight_info_make ::
  "Schema \<Rightarrow> string \<Rightarrow> string list \<Rightarrow> int \<Rightarrow> int \<Rightarrow> Status + Schema \<times> string list" where
  "example_flight_info_make s descriptor endpoints total_records total_bytes =
     Inr (s, endpoints)"

definition example_serialize_command :: "string \<Rightarrow> string" where
  "example_serialize_command h = ''CommandPreparedStatementQuery:'' @ h"

section \<open>The spec's classes of error\<close>

text \<open>
  Modelled from the spec: its taxonomy of errors, which the code does not
  declare. The spec has three classes: NotFound (an unknown or closed handle,
  a malformed handle encoding), InvalidArgument (a value the binder does not
  support, a text the engine refuses to compile) and EngineError (a failure
  of the engine while it executes). The code returns Arrow's \<open>Status\<close>; the
  binder's error for an unsupported value, the spec's InvalidArgument, is
  \<^verbatim>\<open>Status::Invalid\<close>, and Arrow's code for a key that is not there is
  \<^verbatim>\<open>Status::KeyError\<close>. No handler of the server makes a status of another
  code itself.
\<close>

datatype error_class = NotFound | InvalidArgument | EngineError

fun error_class_of :: "StatusCode \<Rightarrow> error_class option" where
  "error_class_of KeyError = Some NotFound"
| "error_class_of Invalid = Some InvalidArgument"
| "error_class_of c = None"

section \<open>The engine's reading of SQL text\<close>

text \<open>
  The tokens of SQLite's tokenizer (\<^verbatim>\<open>sqlite3GetToken\<close>), as far as the statements
  of this server need them: identifiers (bare, or quoted with double quotes),
  reserved words (bare words of the list below, in any letter case; the token
  holds the upper-case word), string literals in single quotes with the doubled quote as
  escape, integers, bind placeholders (\<^verbatim>\<open>?\<close>, \<^verbatim>\<open>?NNN\<close>, \<^verbatim>\<open>:AAA\<close>, \<^verbatim>\<open>@AAA\<close>, \<^verbatim>\<open>$AAA\<close>),
  the punctuation below, and comments (\<^verbatim>\<open>--\<close> to the end of the line, \<^verbatim>\<open>/*\<close> to
  \<^verbatim>\<open>*/\<close> or to the end of the text), which give no token.
\<close>

datatype token =
    TK_ID string
  | TK_KEYWORD string
  | TK_STRING string
  | TK_INTEGER string
  | TK_VARIABLE string
  | TK_LP | TK_RP | TK_COMMA | TK_DOT | TK_STAR | TK_SEMI
  | TK_EQ | TK_NE | TK_MINUS | TK_SLASH

definition isspace :: "char \<Rightarrow> bool" where
  "isspace c \<longleftrightarrow> c \<in> set [CHR '' '', CHR 0x09, CHR 0x0A, CHR 0x0C, CHR 0x0D]"

definition isdigit :: "char \<Rightarrow> bool" where
  "isdigit c \<longleftrightarrow> c \<in> set ''0123456789''"

definition high_bit :: "char \<Rightarrow> bool" where
  "high_bit c = (case c of Char b0 b1 b2 b3 b4 b5 b6 b7 \<Rightarrow> b7)"

definition idchar :: "char \<Rightarrow> bool" where
  "idchar c \<longleftrightarrow>
     c \<in> set ''abcdefghijklmnopqrstuvwxyzABCDEFGHIJKLMNOPQRSTUVWXYZ0123456789_$''
     \<or> high_bit c"

text \<open>
  Reserved words are recognized in any letter case; \<open>upper\<close> is the table that
  folds the ASCII letters.
\<close>

definition upper :: "char \<Rightarrow> char" where
  "upper c =
     (case map_of (zip ''abcdefghijklmnopqrstuvwxyz'' ''ABCDEFGHIJKLMNOPQRSTUVWXYZ'') c of
        None \<Rightarrow> c
      | Some u \<Rightarrow> u)"

definition sql_keywords :: "string list" where
  "sql_keywords =
     [''SELECT'', ''FROM'', ''WHERE'', ''AS'', ''JOIN'', ''ON'', ''ORDER'', ''BY'', ''AND'',
      ''OR'', ''NOT'', ''NULL'', ''CASE'', ''WHEN'', ''THEN'', ''ELSE'', ''END'', ''TABLE'',
      ''TO'', ''GROUP'', ''HAVING'', ''LIMIT'', ''UNION'', ''IN'', ''IS'', ''LIKE'',
      ''DISTINCT'', ''ASC'', ''DESC'', ''INNER'', ''LEFT'', ''CROSS'', ''USING'', ''INSERT'',
      ''UPDATE'', ''DELETE'', ''CREATE'', ''DROP'', ''VALUES'', ''SET'', ''INTO'']"

definition word :: "string \<Rightarrow> token" where
  "word w =
     (if map upper w \<in> set sql_keywords then TK_KEYWORD (map upper w) else TK_ID w)"

text \<open>
  The tokenizer as an automaton over the characters: the state says what is
  being read, \<open>acc\<close> holds the characters of the token read so far, \<open>out\<close>
  the tokens read.
\<close>

datatype lex_state =
    Start | InId | InNum | InVarNumber | InVarName
  | InStr | InStrQuote | InQuotedId | InQuotedIdQuote
  | Minus | LineComment | Slash | BlockComment | BlockCommentStar | Bang | Eq

definition start :: "char \<Rightarrow> (token list \<times> lex_state \<times> string) option" where
  "start c =
     (if isspace c then Some ([], Start, [])
      else if c = CHR ''('' then Some ([TK_LP], Start, [])
      else if c = CHR '')'' then Some ([TK_RP], Start, [])
      else if c = CHR '','' then Some ([TK_COMMA], Start, [])
      else if c = CHR ''.'' then Some ([TK_DOT], Start, [])
      else if c = CHR ''*'' then Some ([TK_STAR], Start, [])
      else if c = CHR '';'' then Some ([TK_SEMI], Start, [])
      else if c = CHR ''='' then Some ([], Eq, [])
      else if c = CHR ''!'' then Some ([], Bang, [])
      else if c = CHR ''-'' then Some ([], Minus, [])
      else if c = CHR ''/'' then Some ([], Slash, [])
      else if c = CHR 0x27 then Some ([], InStr, [])
      else if c = CHR 0x22 then Some ([], InQuotedId, [])
      else if c = CHR ''?'' then Some ([], InVarNumber, [c])
      else if c = CHR '':'' \<or> c = CHR ''@'' \<or> c = CHR ''$'' then Some ([], InVarName, [c])
      else if isdigit c then Some ([], InNum, [c])
      else if idchar c then Some ([], InId, [c])
      else None)"

definition emit :: "token \<Rightarrow> char \<Rightarrow> (token list \<times> lex_state \<times> string) option" where
  "emit t c = map_option (\<lambda>(ts, s, acc). (t # ts, s, acc)) (start c)"

definition step :: "lex_state \<Rightarrow> string \<Rightarrow> char \<Rightarrow> (token list \<times> lex_state \<times> string) option" where
  "step s acc c =
     (case s of
        Start \<Rightarrow> start c
      | InId \<Rightarrow> if idchar c then Some ([], InId, acc @ [c]) else emit (word acc) c
      | InNum \<Rightarrow> if isdigit c then Some ([], InNum, acc @ [c]) else emit (TK_INTEGER acc) c
      | InVarNumber \<Rightarrow>
          if isdigit c then Some ([], InVarNumber, acc @ [c]) else emit (TK_VARIABLE acc) c
      | InVarName \<Rightarrow>
          if idchar c then Some ([], InVarName, acc @ [c])
          else if length acc = 1 then None
          else emit (TK_VARIABLE acc) c
      | InStr \<Rightarrow> if c = CHR 0x27 then Some ([], InStrQuote, acc) else Some ([], InStr, acc @ [c])
      | InStrQuote \<Rightarrow>
          if c = CHR 0x27 then Some ([], InStr, acc @ [c]) else emit (TK_STRING acc) c
      | InQuotedId \<Rightarrow>
          if c = CHR 0x22 then Some ([], InQuotedIdQuote, acc)
          else Some ([], InQuotedId, acc @ [c])
      | InQuotedIdQuote \<Rightarrow>
          if c = CHR 0x22 then Some ([], InQuotedId, acc @ [c]) else emit (TK_ID acc) c
      | Minus \<Rightarrow> if c = CHR ''-'' then Some ([], LineComment, []) else emit TK_MINUS c
      | LineComment \<Rightarrow> if c = CHR 0x0A then Some ([], Start, []) else Some ([], LineComment, [])
      | Slash \<Rightarrow> if c = CHR ''*'' then Some ([], BlockComment, []) else emit TK_SLASH c
      | BlockComment \<Rightarrow>
          if c = CHR ''*'' then Some ([], BlockCommentStar, []) else Some ([], BlockComment, [])
      | BlockCommentStar \<Rightarrow>
          if c = CHR ''/'' then Some ([], Start, [])
          else if c = CHR ''*'' then Some ([], BlockCommentStar, [])
          else Some ([], BlockComment, [])
      | Bang \<Rightarrow> if c = CHR ''='' then Some ([TK_NE], Start, []) else None
      | Eq \<Rightarrow> if c = CHR ''='' then Some ([TK_EQ], Start, []) else emit TK_EQ c)"

definition finish :: "lex_state \<Rightarrow> string \<Rightarrow> token list option" where
  "finish s acc =
     (case s of
        Start \<Rightarrow> Some []
      | InId \<Rightarrow> Some [word acc]
      | InNum \<Rightarrow> Some [TK_INTEGER acc]
      | InVarNumber \<Rightarrow> Some [TK_VARIABLE acc]
      | InVarName \<Rightarrow> if length acc = 1 then None else Some [TK_VARIABLE acc]
      | InStr \<Rightarrow> None
      | InStrQuote \<Rightarrow> Some [TK_STRING acc]
      | InQuotedId \<Rightarrow> None
      | InQuotedIdQuote \<Rightarrow> Some [TK_ID acc]
      | Minus \<Rightarrow> Some [TK_MINUS]
      | LineComment \<Rightarrow> Some []
      | Slash \<Rightarrow> Some [TK_SLASH]
      | BlockComment \<Rightarrow> Some []
      | BlockCommentStar \<Rightarrow> Some []
      | Bang \<Rightarrow> None
      | Eq \<Rightarrow> Some [TK_EQ])"

fun lex ::
  "lex_state \<Rightarrow> string \<Rightarrow> token list \<Rightarrow> string \<Rightarrow> (token list \<times> lex_state \<times> string) option" where
  "lex s acc out [] = Some (out, s, acc)"
| "lex s acc out (c # cs) =
     (case step s acc c of
        None \<Rightarrow> None
      | Some (ts, s', acc') \<Rightarrow> lex s' acc' (out @ ts) cs)"

definition sqlite3_tokens :: "string \<Rightarrow> token list option" where
  "sqlite3_tokens sql =
     (case lex Start [] [] sql of
        None \<Rightarrow> None
      | Some (out, s, acc) \<Rightarrow>
          (case finish s acc of None \<Rightarrow> None | Some ts \<Rightarrow> Some (out @ ts)))"

text \<open>
  The bind placeholders of a statement text, in order, and the engine's
  numbering of them (SQLite's documentation of \<^verbatim>\<open>sqlite3_bind_*\<close>): a plain \<^verbatim>\<open>?\<close>
  takes the number after the largest one assigned so far, \<^verbatim>\<open>?NNN\<close> takes
  \<open>NNN\<close>, a named placeholder takes the number of its first occurrence or
  else the number after the largest so far. \<open>sqlite3_bind_parameter_count\<close>
  is the largest number assigned; \<open>sqlite3_bind_parameter_name\<close> gives the
  text of a numbered or named placeholder and nothing for a plain \<^verbatim>\<open>?\<close> or
  an unassigned number.
\<close>

fun variables :: "token list \<Rightarrow> string list" where
  "variables [] = []"
| "variables (TK_VARIABLE v # ts) = v # variables ts"
| "variables (t # ts) = variables ts"

definition bind_placeholders :: "string \<Rightarrow> string list" where
  "bind_placeholders sql = (case sqlite3_tokens sql of None \<Rightarrow> [] | Some ts \<Rightarrow> variables ts)"

fun decimal :: "string \<Rightarrow> nat \<Rightarrow> nat" where
  "decimal [] n = n"
| "decimal (c # cs) n = decimal cs (10 * n + (of_char c - of_char CHR ''0''))"

text \<open>
  \<open>number_variables vs largest names\<close> runs over the placeholders with the
  largest number so far and the names assigned so far (number and text).
\<close>

fun number_variables :: "string list \<Rightarrow> nat \<Rightarrow> (nat \<times> string) list \<Rightarrow> nat \<times> (nat \<times> string) list" where
  "number_variables [] largest names = (largest, names)"
| "number_variables (v # vs) largest names =
     (if v = ''?'' then number_variables vs (largest + 1) names
      else if hd v = CHR ''?'' then
        (let x = decimal (tl v) 0 in
         number_variables vs (max largest x)
           (if x \<in> fst ` set names then names else names @ [(x, v)]))
      else
        (case find (\<lambda>(x, name). name = v) names of
           Some (x, name) \<Rightarrow> number_variables vs largest names
         | None \<Rightarrow> number_variables vs (largest + 1) (names @ [(largest + 1, v)])))"

text \<open>
  What \<^verbatim>\<open>sqlite3_prepare_v2\<close> fixes of a statement's parameters; a text with no
  reading as tokens is not compiled.
\<close>

definition sqlite3_prepare :: "string \<Rightarrow> SqliteStatement option" where
  "sqlite3_prepare sql =
     (case sqlite3_tokens sql of
        None \<Rightarrow> None
      | Some ts \<Rightarrow>
          (case number_variables (variables ts) 0 [] of
             (largest, names) \<Rightarrow>
               Some \<lparr>sqlite3_bind_parameter_count = int largest,
                     sqlite3_bind_parameter_name =
                       (\<lambda>i. if i < 0 then None else map_of names (nat i)),
                     bind_calls = []\<rparr>))"

text \<open>
  \<^verbatim>\<open>SqliteStatement::Create\<close> over that engine; the status of a text the engine
  refuses is the engine's message under Arrow's code for an unknown error.
\<close>

definition sqlite3_Create :: "string \<Rightarrow> Status + SqliteStatement" where
  "sqlite3_Create sql =
     (case sqlite3_prepare sql of
        None \<Rightarrow> Inl (Status UnknownError ''unrecognized token'')
      | Some statement \<Rightarrow> Inr statement)"
section \<open>Properties of the type mapper\<close>

lemma equals_is_iequal: "equals is_iequal xs ys \<longleftrightarrow> map toupper xs = map toupper ys"
  by (induction is_iequal xs ys rule: equals.induct) (auto simp: is_iequal_def)

lemma starts_with_is_iequal:
  "starts_with is_iequal xs ys \<longleftrightarrow> prefix (map toupper ys) (map toupper xs)"
  by (induction is_iequal xs ys rule: starts_with.induct) (auto simp: is_iequal_def)

lemma iequals_casefold: "iequals s t \<longleftrightarrow> casefold s = casefold t"
  by (simp add: iequals_def casefold_def equals_is_iequal)

lemma istarts_with_casefold: "istarts_with s t \<longleftrightarrow> prefix (casefold t) (casefold s)"
  by (simp add: istarts_with_def casefold_def starts_with_is_iequal)

lemma casefold_literals:
  "casefold ''int'' = ''INT''" "casefold ''integer'' = ''INTEGER''"
  "casefold ''REAL'' = ''REAL''" "casefold ''BLOB'' = ''BLOB''"
  "casefold ''TEXT'' = ''TEXT''" "casefold ''char'' = ''CHAR''"
  "casefold ''varchar'' = ''VARCHAR''"
  by (simp_all add: casefold_def toupper_def less_eq_char_def char_of_def bit_simps)

text \<open>
  C5. The type mapper is a total function on an optional type name that
  never fails: it agrees everywhere with the case-insensitive priority rules
  (absent gives the null type; int and integer give the 64-bit integer; real
  the 64-bit float; blob binary; text and every name starting with char or
  varchar the UTF-8 string; everything else the null type), and on the
  specification's sample names it gives the stated types.
\<close>

theorem GetArrowType_rules:
  "GetArrowType name = type_mapper_rules name
   \<and> GetArrowType None = NullType
   \<and> GetArrowType (Some ''INTEGER'') = Int64Type
   \<and> GetArrowType (Some ''int'') = Int64Type
   \<and> GetArrowType (Some ''Real'') = DoubleType
   \<and> GetArrowType (Some ''blob'') = BinaryType
   \<and> GetArrowType (Some ''Text'') = StringType
   \<and> GetArrowType (Some ''varchar(100)'') = StringType
   \<and> GetArrowType (Some ''CHARACTER(20)'') = StringType
   \<and> GetArrowType (Some ''unknown_xyz'') = NullType"
proof -
  have rules: "GetArrowType n = type_mapper_rules n" for n
    by (cases n)
      (simp_all add: GetArrowType_def type_mapper_rules_def iequals_casefold
        istarts_with_casefold casefold_literals)
  have samples:
    "casefold ''INTEGER'' = ''INTEGER''" "casefold ''Real'' = ''REAL''"
    "casefold ''blob'' = ''BLOB''" "casefold ''Text'' = ''TEXT''"
    "casefold ''varchar(100)'' = ''VARCHAR(100)''"
    "casefold ''CHARACTER(20)'' = ''CHARACTER(20)''"
    "casefold ''unknown_xyz'' = ''UNKNOWN_XYZ''"
    by (simp_all add: casefold_def toupper_def less_eq_char_def char_of_def bit_simps)
  show ?thesis
    unfolding rules
    by (simp add: type_mapper_rules_def samples casefold_literals)
qed

section \<open>Properties of the GetTables query text\<close>

lemma table_types_loop_drop:
  "0 \<le> i \<Longrightarrow> sz = int (length types) \<Longrightarrow>
   table_types_loop types sz i out = out @ quoted_list (drop (nat i) types)"
proof (induction types sz i out rule: table_types_loop.induct)
  case (1 types sz i table_query)
  show ?case
  proof (cases "i < sz")
    case False
    with 1(2,3) show ?thesis
      by (subst table_types_loop.simps) simp
  next
    case True
    with 1(2,3) have d: "drop (nat i) types = types ! nat i # drop (nat (i + 1)) types"
      by (simp add: Cons_nth_drop_Suc nat_add_distrib)
    show ?thesis
    proof (cases "sz - 1 \<noteq> i")
      case ne: True
      with True 1(2,3) have "drop (nat (i + 1)) types \<noteq> []"
        by auto
      then obtain y ys where e: "drop (nat (i + 1)) types = y # ys"
        by (cases "drop (nat (i + 1)) types") auto
      have "table_types_loop types sz i table_query =
            table_types_loop types sz (i + 1)
              ((table_query @ [CHR 0x27] @ types ! nat i @ [CHR 0x27]) @ '','')"
        using True ne by (subst table_types_loop.simps) (simp add: Let_def)
      also have "\<dots> = ((table_query @ [CHR 0x27] @ types ! nat i @ [CHR 0x27]) @ '','')
                       @ quoted_list (drop (nat (i + 1)) types)"
        using 1(1) [OF True refl refl] ne 1(2,3) by simp
      finally show ?thesis
        by (simp add: d e)
    next
      case eq: False
      with True 1(2,3) have e: "drop (nat (i + 1)) types = []"
        by auto
      have "table_types_loop types sz i table_query =
            table_types_loop types sz (i + 1)
              (table_query @ [CHR 0x27] @ types ! nat i @ [CHR 0x27])"
        using True eq by (subst table_types_loop.simps) (simp add: Let_def)
      also have "\<dots> = (table_query @ [CHR 0x27] @ types ! nat i @ [CHR 0x27])
                       @ quoted_list (drop (nat (i + 1)) types)"
        using 1(1) [OF True refl refl] eq 1(2,3) by simp
      finally show ?thesis
        by (simp add: d e)
    qed
  qed
qed


text \<open>
  C6. The GetTables query is the base select, followed by the catalog
  equality filter only when the catalog is present, the schema and table-name
  LIKE filters only when those patterns are present, the IN list of quoted
  table types only when the list is non-empty, and it always ends in
  \<open>order by table_name\<close>; with catalog c and table types table and view it
  contains \<open>catalog_name='c'\<close> and \<open>table_type IN ('table','view')\<close>.
\<close>

theorem PrepareQueryForGetTables_text:
  "PrepareQueryForGetTables command =
     ''SELECT null as catalog_name, null as schema_name, name as table_name, type as table_type FROM sqlite_master where 1=1''
     @ (case catalog command of
          None \<Rightarrow> []
        | Some c \<Rightarrow> '' and catalog_name='' @ [CHR 0x27] @ c @ [CHR 0x27])
     @ (case schema_filter_pattern command of
          None \<Rightarrow> []
        | Some p \<Rightarrow> '' and schema_name LIKE '' @ [CHR 0x27] @ p @ [CHR 0x27])
     @ (case table_name_filter_pattern command of
          None \<Rightarrow> []
        | Some p \<Rightarrow> '' and table_name LIKE '' @ [CHR 0x27] @ p @ [CHR 0x27])
     @ (if table_types command = [] then []
        else '' and table_type IN ('' @ quoted_list (table_types command) @ '')'')
     @ '' order by table_name''
   \<and> suffix '' order by table_name'' (PrepareQueryForGetTables command)
   \<and> (catalog command = Some ''c'' \<and> table_types command = [''table'', ''view'']
        \<longrightarrow> sublist (''catalog_name='c'' @ [CHR 0x27]) (PrepareQueryForGetTables command)
          \<and> sublist ''table_type IN ('table','view')'' (PrepareQueryForGetTables command))"
proof -
  let ?base = "''SELECT null as catalog_name, null as schema_name, name as table_name, type as table_type FROM sqlite_master where 1=1''"
  let ?cat = "case catalog command of
          None \<Rightarrow> []
        | Some c \<Rightarrow> '' and catalog_name='' @ [CHR 0x27] @ c @ [CHR 0x27]"
  let ?sch = "case schema_filter_pattern command of
          None \<Rightarrow> []
        | Some p \<Rightarrow> '' and schema_name LIKE '' @ [CHR 0x27] @ p @ [CHR 0x27]"
  let ?tab = "case table_name_filter_pattern command of
          None \<Rightarrow> []
        | Some p \<Rightarrow> '' and table_name LIKE '' @ [CHR 0x27] @ p @ [CHR 0x27]"
  let ?tys = "if table_types command = [] then []
        else '' and table_type IN ('' @ quoted_list (table_types command) @ '')''"
  have shape: "PrepareQueryForGetTables command =
      ?base @ ?cat @ ?sch @ ?tab @ ?tys @ '' order by table_name''"
    by (simp add: PrepareQueryForGetTables_def Let_def table_types_loop_drop
        split: option.split)
  have ends: "suffix '' order by table_name'' (PrepareQueryForGetTables command)"
    unfolding shape suffix_def
    by (rule exI [of _ "?base @ ?cat @ ?sch @ ?tab @ ?tys"]) simp
  have sample: "sublist (''catalog_name='c'' @ [CHR 0x27]) (PrepareQueryForGetTables command)
      \<and> sublist ''table_type IN ('table','view')'' (PrepareQueryForGetTables command)"
    if c: "catalog command = Some ''c''" and t: "table_types command = [''table'', ''view'']"
  proof
    show "sublist (''catalog_name='c'' @ [CHR 0x27]) (PrepareQueryForGetTables command)"
      unfolding shape sublist_def
      apply (rule exI [of _ "?base @ '' and ''"])
      apply (rule exI [of _ "?sch @ ?tab @ ?tys @ '' order by table_name''"])
      apply (simp add: c)
      done
    show "sublist ''table_type IN ('table','view')'' (PrepareQueryForGetTables command)"
      unfolding shape sublist_def
      apply (rule exI [of _ "?base @ ?cat @ ?sch @ ?tab @ '' and ''"])
      apply (rule exI [of _ "'' order by table_name''"])
      apply (simp add: t)
      done
  qed
  from shape ends sample show ?thesis
    by blast
qed

theorem PrepareQueryForGetTables_text_witness:
  "catalog example_get_tables = Some ''c''
   \<and> table_types example_get_tables = [''table'', ''view'']
   \<and> PrepareQueryForGetTables example_get_tables =
     ''SELECT null as catalog_name, null as schema_name, name as table_name, type as table_type FROM sqlite_master where 1=1 and catalog_name='c' and table_type IN ('table','view') order by table_name''
   \<and> sublist (''catalog_name='c'' @ [CHR 0x27])
        (PrepareQueryForGetTables example_get_tables)
   \<and> sublist ''table_type IN ('table','view')''
        (PrepareQueryForGetTables example_get_tables)"
proof -
  note inst = PrepareQueryForGetTables_text [of example_get_tables]
  have h: "catalog example_get_tables = Some ''c''
      \<and> table_types example_get_tables = [''table'', ''view'']"
    by (simp add: example_get_tables_def)
  have e: "PrepareQueryForGetTables example_get_tables =
     ''SELECT null as catalog_name, null as schema_name, name as table_name, type as table_type FROM sqlite_master where 1=1 and catalog_name='c' and table_type IN ('table','view') order by table_name''"
    by (subst conjunct1 [OF inst]) (simp add: example_get_tables_def)
  from inst h e show ?thesis
    by blast
qed

section \<open>Properties of the handle encoding\<close>

lemma xdigit_to_char: "h < 16 \<Longrightarrow> xdigit (to_char h) = Some h"
proof -
  assume "h < 16"
  then have "h = 0 \<or> h = 1 \<or> h = 2 \<or> h = 3 \<or> h = 4 \<or> h = 5 \<or> h = 6 \<or> h = 7 \<or> h = 8
      \<or> h = 9 \<or> h = 10 \<or> h = 11 \<or> h = 12 \<or> h = 13 \<or> h = 14 \<or> h = 15"
    by arith
  then show ?thesis
    by (elim disjE)
      (simp_all add: xdigit_def to_char_def toupper_def less_eq_char_def char_of_def bit_simps)
qed

lemma fifteen_mask: "(0x0F :: 8 word) = mask 4"
  by (simp add: mask_eq_exp_minus_1)

lemma nibbles: "push_bit 4 (drop_bit 4 b AND 0x0F) OR (b AND 0x0F) = (b :: 8 word)"
  unfolding fifteen_mask
  by (rule bit_word_eqI) (auto simp: bit_simps)

lemma nibbles_simp: "push_bit 4 (drop_bit 4 b) AND 240 OR b AND 15 = (b :: 8 word)"
  using nibbles [of b] by simp

lemma nibble_lt: "unat ((w :: 8 word) AND 0x0F) < 16"
proof -
  have "w AND 0x0F \<le> 0x0F"
    by (rule word_and_le1)
  then show ?thesis
    by (simp add: word_le_nat_alt)
qed

lemma read_uuid_to_chars:
  "read_uuid (length bs) i (to_chars i bs @ rest) = Some (bs, rest)"
proof (induction bs arbitrary: i)
  case Nil
  show ?case by simp
next
  case (Cons b bs)
  show ?case
    by (simp add: Let_def xdigit_to_char nibble_lt nibbles_simp Cons.IH)
qed

lemma lexical_cast_to_string: "length u = 16 \<Longrightarrow> lexical_cast (to_string u) = Some u"
  using read_uuid_to_chars [of u 0 "[]"] by (simp add: lexical_cast_def to_string_def)

lemma length_example_uuid: "length example_uuid = 16"
  by (simp add: example_uuid_def)

lemma lexical_cast_garbage: "lexical_cast ''zz'' = None"
  by (simp add: lexical_cast_def numeral_nat xdigit_def toupper_def less_eq_char_def
      char_of_def bit_simps)

section \<open>Properties of GetCatalogs and GetSchemas\<close>

text \<open>
  C8. Whatever the server's state and whatever the filters of the command,
  GetCatalogs and GetSchemas return OK with a single batch of zero rows that
  carries the fixed metadata schema (one empty column for catalogs, two for
  schemas), and the server, with the list of SQL handed to the engine, is as
  before.
\<close>

theorem DoGetCatalogs_DoGetSchemas_empty:
  "DoGetCatalogs GetCatalogsSchema this =
     (Status_OK,
      Some (RecordBatchStream [\<lparr>schema = GetCatalogsSchema, num_rows = 0, columns = [[]]\<rparr>]),
      this)
   \<and> DoGetSchemas GetSchemasSchema this command =
     (Status_OK,
      Some (RecordBatchStream [\<lparr>schema = GetSchemasSchema, num_rows = 0, columns = [[], []]\<rparr>]),
      this)
   \<and> db_statements (snd (snd (DoGetCatalogs GetCatalogsSchema this))) = db_statements this
   \<and> db_statements (snd (snd (DoGetSchemas GetSchemasSchema this command))) = db_statements this"
  by (simp add: DoGetCatalogs_def DoGetSchemas_def)

section \<open>Properties of the parameter schema\<close>

lemma parameter_fields_loop_upto:
  "parameter_fields_loop stmt t n i fs =
     fs @ map (\<lambda>k. Field (case sqlite3_bind_parameter_name stmt k of
                            None \<Rightarrow> ''parameter_'' @ std_to_string k
                          | Some chars \<Rightarrow> chars) t) [i + 1..n]"
proof (induction stmt t n i fs rule: parameter_fields_loop.induct)
  case (1 stmt t n i fs)
  show ?case
  proof (cases "i < n")
    case False
    then show ?thesis
      by (subst parameter_fields_loop.simps) simp
  next
    case True
    then have u: "[i + 1..n] = (i + 1) # [i + 1 + 1..n]"
      by (simp add: upto_rec1)
    from True show ?thesis
      by (subst parameter_fields_loop.simps) (simp add: Let_def 1 [OF True refl refl] u)
  qed
qed

lemma std_to_string_digit: "0 \<le> i \<Longrightarrow> i < 10 \<Longrightarrow> std_to_string i = [char_of (48 + nat i)]"
  by (simp add: std_to_string_def digits.simps)

text \<open>
  Against C9 as stated. The text \<^verbatim>\<open>SELECT ?5\<close> has one bind placeholder; the
  engine numbers it 5 and counts five parameters, and the parameter schema
  Create returns has five fields: four generated names and \<open>?5\<close>.
\<close>

theorem one_placeholder_five_fields:
  "bind_placeholders ''SELECT ?5'' = [''?5'']
   \<and> fst (CreatePreparedStatement sqlite3_Create example_get_schema example_serialize
          NullType example_uuid empty_server ''SELECT ?5'') = Status_OK
   \<and> map_option result_parameter_schema
        (fst (snd (CreatePreparedStatement sqlite3_Create example_get_schema example_serialize
                     NullType example_uuid empty_server ''SELECT ?5''))) =
       Some ''parameter_1;parameter_2;parameter_3;parameter_4;?5;''"
proof -
  have t: "sqlite3_tokens ''SELECT ?5'' = Some [TK_KEYWORD ''SELECT'', TK_VARIABLE ''?5'']"
    by code_simp
  have n: "number_variables [''?5''] 0 [] = (5, [(5, ''?5'')])"
    by code_simp
  have p: "sqlite3_Create ''SELECT ?5'' =
      Inr \<lparr>sqlite3_bind_parameter_count = 5,
           sqlite3_bind_parameter_name =
             (\<lambda>i. if i < 0 then None else map_of [(5, ''?5'')] (nat i)),
           bind_calls = []\<rparr>"
    by (simp add: sqlite3_Create_def sqlite3_prepare_def t n del: number_variables.simps One_nat_def)
  have s: "std_to_string 1 = ''1''" "std_to_string 2 = ''2''" "std_to_string 3 = ''3''"
    "std_to_string 4 = ''4''"
    by (simp_all add: std_to_string_digit char_of_def bit_simps)
  have u: "[1..5] = [1, 2, 3, 4, 5::int]"
    by (simp add: upto_rec1 [of 1 5] upto_rec1 [of 2 5] upto_rec1 [of 3 5] upto_rec1 [of 4 5]
        upto_rec1 [of 5 5])
  have loop: "parameter_fields_loop
      \<lparr>sqlite3_bind_parameter_count = 5,
       sqlite3_bind_parameter_name =
         (\<lambda>i. if i < 0 then None else map_of [(5, ''?5'')] (nat i)),
       bind_calls = []\<rparr> NullType 5 0 [] =
      [Field ''parameter_1'' NullType, Field ''parameter_2'' NullType,
       Field ''parameter_3'' NullType, Field ''parameter_4'' NullType, Field ''?5'' NullType]"
    by (simp add: parameter_fields_loop_upto u s)
  have b: "bind_placeholders ''SELECT ?5'' = [''?5'']"
    by (simp add: bind_placeholders_def t)
  have r: "CreatePreparedStatement sqlite3_Create example_get_schema example_serialize
      NullType example_uuid empty_server ''SELECT ?5'' =
      (Status_OK,
       Some \<lparr>result_dataset_schema = ''id;keyName;'',
             result_parameter_schema = ''parameter_1;parameter_2;parameter_3;parameter_4;?5;'',
             result_prepared_statement_handle = to_string example_uuid\<rparr>,
       empty_server
         \<lparr>db_statements := db_statements empty_server @ [''SELECT ?5''],
          prepared_statements := (prepared_statements empty_server)
            (example_uuid \<mapsto>
               \<lparr>sqlite3_bind_parameter_count = 5,
                sqlite3_bind_parameter_name =
                  (\<lambda>i. if i < 0 then None else map_of [(5, ''?5'')] (nat i)),
                bind_calls = []\<rparr>)\<rparr>)"
    by (simp add: CreatePreparedStatement_def p loop example_get_schema_def
        example_serialize_def)
  from b show ?thesis
    by (simp add: r)
qed

text \<open>
  C9, amended. For the statement the engine compiled, with n the parameter
  count it reports (the largest number it gave a placeholder of the text, not
  the number of placeholders), the parameter schema that Create serializes
  into its result has exactly n fields; field i (counted from 1) is named by
  the engine's name for parameter i when there is one and \<open>parameter_\<close>
  followed by the decimal i otherwise, and every field has the unknown-value
  union type.
\<close>

theorem CreatePreparedStatement_parameter_schema:
  assumes "SqliteStatement_Create query = Inr statement"
    and "CreatePreparedStatement SqliteStatement_Create GetSchema SerializeSchema
           GetUnknownColumnDataType uuid this query = (st, Some result, this')"
  shows "\<exists>parameter_schema.
           SerializeSchema parameter_schema = Inr (result_parameter_schema result)
           \<and> length parameter_schema = nat (sqlite3_bind_parameter_count statement)
           \<and> (\<forall>i. 1 \<le> i \<and> i \<le> sqlite3_bind_parameter_count statement \<longrightarrow>
                 parameter_schema ! nat (i - 1) =
                   Field (case sqlite3_bind_parameter_name statement i of
                            None \<Rightarrow> ''parameter_'' @ std_to_string i
                          | Some chars \<Rightarrow> chars)
                     GetUnknownColumnDataType)"
proof -
  let ?n = "sqlite3_bind_parameter_count statement"
  let ?ps = "parameter_fields_loop statement GetUnknownColumnDataType ?n 0 []"
  from assms have ser: "SerializeSchema ?ps = Inr (result_parameter_schema result)"
    by (auto simp: CreatePreparedStatement_def Let_def split: sum.splits)
  have len: "length ?ps = nat ?n"
    by (simp add: parameter_fields_loop_upto)
  have nth: "?ps ! nat (i - 1) =
      Field (case sqlite3_bind_parameter_name statement i of
               None \<Rightarrow> ''parameter_'' @ std_to_string i
             | Some chars \<Rightarrow> chars) GetUnknownColumnDataType"
    if "1 \<le> i \<and> i \<le> ?n" for i
  proof -
    from that have "[0 + 1..?n] ! nat (i - 1) = i"
      by (simp add: nth_upto)
    with that show ?thesis
      by (simp add: parameter_fields_loop_upto split: option.split)
  qed
  from ser len nth show ?thesis
    by blast
qed

theorem CreatePreparedStatement_parameter_schema_witness:
  "example_compile ''q'' = Inr example_statement
   \<and> CreatePreparedStatement example_compile example_get_schema example_serialize
        NullType example_uuid empty_server ''q'' =
      (Status_OK,
       Some \<lparr>result_dataset_schema = ''id;keyName;'',
             result_parameter_schema = ''?1;parameter_2;'',
             result_prepared_statement_handle = ''12345678-9abc-def0-0f1e-2d3c4b5a6978''\<rparr>,
       \<lparr>prepared_statements = [example_uuid \<mapsto> example_statement], db_statements = [''q'']\<rparr>)
   \<and> (\<exists>parameter_schema.
         example_serialize parameter_schema = Inr ''?1;parameter_2;''
         \<and> length parameter_schema = 2
         \<and> parameter_schema ! 0 = Field ''?1'' NullType
         \<and> parameter_schema ! 1 = Field ''parameter_2'' NullType)"
proof -
  have c: "example_compile ''q'' = Inr example_statement"
    by (simp add: example_compile_def)
  have cnt: "sqlite3_bind_parameter_count example_statement = 2"
    by (simp add: example_statement_def)
  have s2: "std_to_string 2 = ''2''"
    by (simp add: std_to_string_digit char_of_def bit_simps)
  have loop: "parameter_fields_loop example_statement NullType 2 0 [] =
      [Field ''?1'' NullType, Field ''parameter_2'' NullType]"
    by (simp add: parameter_fields_loop_upto upto_rec1 [of 1 2] upto_rec1 [of 2 2]
        example_statement_def s2)
  have h: "to_string example_uuid = ''12345678-9abc-def0-0f1e-2d3c4b5a6978''"
    by (simp add: to_string_def example_uuid_def to_char_def char_of_def bit_simps)
  have r: "CreatePreparedStatement example_compile example_get_schema example_serialize
        NullType example_uuid empty_server ''q'' =
      (Status_OK,
       Some \<lparr>result_dataset_schema = ''id;keyName;'',
             result_parameter_schema = ''?1;parameter_2;'',
             result_prepared_statement_handle = ''12345678-9abc-def0-0f1e-2d3c4b5a6978''\<rparr>,
       \<lparr>prepared_statements = [example_uuid \<mapsto> example_statement], db_statements = [''q'']\<rparr>)"
    by (simp add: CreatePreparedStatement_def c cnt loop h empty_server_def
        example_get_schema_def example_serialize_def)
  from CreatePreparedStatement_parameter_schema [OF c r]
  obtain ps where ps: "example_serialize ps = Inr ''?1;parameter_2;''"
    "length ps = nat (sqlite3_bind_parameter_count example_statement)"
    "\<forall>i. 1 \<le> i \<and> i \<le> sqlite3_bind_parameter_count example_statement \<longrightarrow>
       ps ! nat (i - 1) =
         Field (case sqlite3_bind_parameter_name example_statement i of
                  None \<Rightarrow> ''parameter_'' @ std_to_string i
                | Some chars \<Rightarrow> chars) NullType"
    by auto
  from ps(2) have l: "length ps = 2"
    by (simp add: example_statement_def)
  from ps(3) [rule_format, of 1] have p0: "ps ! 0 = Field ''?1'' NullType"
    by (simp add: example_statement_def)
  from ps(3) [rule_format, of 2] have p1: "ps ! 1 = Field ''parameter_2'' NullType"
    by (simp add: example_statement_def s2)
  from c r ps(1) l p0 p1 show ?thesis
    by blast
qed

section \<open>Properties of the parameter binder\<close>

lemma static_cast_int_small: "n < 2 ^ 31 \<Longrightarrow> static_cast_int (int n) = int n"
proof -
  assume "n < 2 ^ 31"
  then have "int n < 2 ^ 31"
    by simp
  then have "signed_take_bit 31 (int n) = int n"
    by (intro signed_take_bit_int_eq_self) simp_all
  then show ?thesis
    unfolding static_cast_int_def by (simp only: sint_sbintrunc') simp
qed

lemma strlen_c_str: "strlen (c_str s) = length (takeWhile (\<lambda>c. c \<noteq> CHR 0x00) s)"
  by (simp add: strlen_def c_str_def takeWhile_tail)

lemma take_strlen_c_str:
  "take (strlen (c_str s)) (c_str s) = takeWhile (\<lambda>c. c \<noteq> CHR 0x00) s"
proof -
  have "take (strlen (c_str s)) (c_str s) = takeWhile (\<lambda>c. c \<noteq> CHR 0x00) (c_str s)"
    unfolding strlen_def by (rule takeWhile_eq_take [symmetric])
  then show ?thesis
    by (simp add: c_str_def takeWhile_tail)
qed

lemma strlen_le: "strlen (c_str s) \<le> length s"
  by (simp add: strlen_c_str length_takeWhile_le)

lemma strlen_embedded_nul: "CHR 0x00 \<in> set s \<Longrightarrow> strlen (c_str s) < length s"
proof (rule ccontr)
  let ?t = "takeWhile (\<lambda>c. c \<noteq> CHR 0x00) s"
  assume nul: "CHR 0x00 \<in> set s" and "\<not> strlen (c_str s) < length s"
  with strlen_le [of s] have "length ?t = length s"
    by (simp add: strlen_c_str)
  then have "take (length ?t) s = s"
    by simp
  then have "?t = s"
    by (simp only: takeWhile_eq_take [symmetric])
  then have "\<forall>x\<in>set s. x \<noteq> CHR 0x00"
    by (simp only: takeWhile_eq_all_conv)
  with nul show False
    by blast
qed

lemma bind_holder_supported:
  "bind_holder ToString c (Int64Scalar v) stmt = Inr (bind (sqlite3_bind_int64 (c + 1) v) stmt)"
  "bind_holder ToString c (FloatScalar w) stmt =
     Inr (bind (sqlite3_bind_double (c + 1) (FloatToDouble w)) stmt)"
  by (simp_all add: bind_holder_def)

lemma bind_holder_unsupported:
  "holder = BooleanScalar b \<or> holder = Int32Scalar i \<or> holder = DoubleScalar d
     \<or> holder = ListScalar t xs \<or> holder = MapScalar k t' ys \<Longrightarrow>
   bind_holder ToString c holder stmt =
     Inl (Status Invalid (''Received unsupported data type: '' @ ToString (scalar_type holder)))"
  by (elim disjE) (simp_all add: bind_holder_def Status_Invalid_def)

lemma bind_holder_string:
  "length s < 2 ^ 31 \<Longrightarrow>
   bind_holder ToString c (StringScalar s) stmt =
     Inr (bind (sqlite3_bind_text (c + 1) (c_str s) (int (strlen (c_str s)))
                  SQLITE_TRANSIENT) stmt)"
proof -
  assume "length s < 2 ^ 31"
  with strlen_le [of s] have "strlen (c_str s) < 2 ^ 31"
    by simp
  then show ?thesis
    by (simp add: bind_holder_def Let_def static_cast_int_small)
qed

lemma bind_holder_binary:
  "length s < 2 ^ 31 \<Longrightarrow>
   bind_holder ToString c (BinaryScalar s) stmt =
     Inr (bind (sqlite3_bind_blob (c + 1) s (int (length s)) SQLITE_TRANSIENT) stmt)"
  by (simp add: bind_holder_def static_cast_int_small)

text \<open>
  C10. A string cell is bound with \<open>sqlite3_bind_text\<close> on the NUL-terminated
  copy and the length \<open>strlen\<close> gives: the bytes bound are those before the
  first NUL, fewer than the string has when it contains a NUL and all of them
  when it does not. A binary cell is bound with \<open>sqlite3_bind_blob\<close> on the
  buffer and its full size. (Sizes are below \<open>2^31\<close>, as the 32-bit offsets of
  Arrow's string and binary arrays make them, so the cast to \<open>int\<close> is exact.)
\<close>

theorem bind_holder_string_binary:
  assumes "length s < 2 ^ 31"
  shows "bind_holder ToString c (StringScalar s) stmt =
           Inr (bind (sqlite3_bind_text (c + 1) (c_str s) (int (strlen (c_str s)))
                        SQLITE_TRANSIENT) stmt)
         \<and> take (strlen (c_str s)) (c_str s) = takeWhile (\<lambda>x. x \<noteq> CHR 0x00) s
         \<and> (CHR 0x00 \<in> set s \<longrightarrow> strlen (c_str s) < length s)
         \<and> (CHR 0x00 \<notin> set s \<longrightarrow> take (strlen (c_str s)) (c_str s) = s)
         \<and> bind_holder ToString c (BinaryScalar s) stmt =
           Inr (bind (sqlite3_bind_blob (c + 1) s (int (length s)) SQLITE_TRANSIENT) stmt)"
proof -
  from assms have text_bind: "bind_holder ToString c (StringScalar s) stmt =
           Inr (bind (sqlite3_bind_text (c + 1) (c_str s) (int (strlen (c_str s)))
                        SQLITE_TRANSIENT) stmt)"
    by (rule bind_holder_string)
  have no_nul: "take (strlen (c_str s)) (c_str s) = s" if "CHR 0x00 \<notin> set s"
  proof -
    from that have "takeWhile (\<lambda>x. x \<noteq> CHR 0x00) s = s"
      by auto
    then show ?thesis
      by (simp add: take_strlen_c_str)
  qed
  from assms have blob_bind: "bind_holder ToString c (BinaryScalar s) stmt =
           Inr (bind (sqlite3_bind_blob (c + 1) s (int (length s)) SQLITE_TRANSIENT) stmt)"
    by (rule bind_holder_binary)
  from text_bind take_strlen_c_str strlen_embedded_nul no_nul blob_bind show ?thesis
    by blast
qed

theorem bind_holder_string_binary_witness:
  "length [CHR ''a'', CHR ''b'', CHR 0x00, CHR ''c'', CHR ''d''] < (2::nat) ^ 31
   \<and> bind_holder example_to_string 0 (StringScalar [CHR ''a'', CHR ''b'', CHR 0x00, CHR ''c'', CHR ''d''])
        example_statement =
      Inr (bind (sqlite3_bind_text 1 [CHR ''a'', CHR ''b'', CHR 0x00, CHR ''c'', CHR ''d'', CHR 0x00]
                   2 SQLITE_TRANSIENT) example_statement)
   \<and> take (strlen (c_str [CHR ''a'', CHR ''b'', CHR 0x00, CHR ''c'', CHR ''d'']))
        (c_str [CHR ''a'', CHR ''b'', CHR 0x00, CHR ''c'', CHR ''d'']) = ''ab''
   \<and> bind_holder example_to_string 0 (BinaryScalar [CHR ''a'', CHR ''b'', CHR 0x00, CHR ''c'', CHR ''d''])
        example_statement =
      Inr (bind (sqlite3_bind_blob 1 [CHR ''a'', CHR ''b'', CHR 0x00, CHR ''c'', CHR ''d'']
                   5 SQLITE_TRANSIENT) example_statement)"
proof -
  let ?s = "[CHR ''a'', CHR ''b'', CHR 0x00, CHR ''c'', CHR ''d'']"
  have small: "length ?s < (2::nat) ^ 31"
    by simp
  have n: "strlen [CHR ''a'', CHR ''b'', CHR 0x00, CHR ''c'', CHR ''d'', CHR 0x00] = 2"
    "c_str ?s = [CHR ''a'', CHR ''b'', CHR 0x00, CHR ''c'', CHR ''d'', CHR 0x00]"
    by (simp_all add: strlen_def c_str_def)
  from bind_holder_string_binary [OF small, of example_to_string 0 example_statement]
  show ?thesis
    using small by (simp add: n)
qed

text \<open>
  C1, at the cell the binder gets wrong. A 64-bit float cell reaches the
  \<open>default\<close> case: the case label for floats is the 32-bit \<open>Type::FLOAT\<close>. For the
  sample batch (the string \<open>abc\<close>, then the 64-bit float 1.5) the string is
  bound as text at position 1 and the command then fails with the
  unsupported-type status naming the 64-bit float type; nothing is bound at
  position 2.
\<close>

theorem DoPutPreparedStatement_double_unsupported:
  "bind_holder ToString c (DoubleScalar d) stmt =
     Inl (Status Invalid (''Received unsupported data type: '' @ ToString DoubleType))
   \<and> DoPutPreparedStatement ToString example_server (to_string example_uuid)
        [Inr example_parameters] =
      Inr (Status Invalid (''Received unsupported data type: '' @ ToString DoubleType),
           example_server\<lparr>prepared_statements :=
             [example_uuid \<mapsto>
                bind (sqlite3_bind_text 1 (c_str ''abc'') 3 SQLITE_TRANSIENT)
                  example_statement]\<rparr>)"
proof -
  have cell: "bind_holder ToString k (DoubleScalar v) statement =
     Inl (Status Invalid (''Received unsupported data type: '' @ ToString DoubleType))"
    for k v statement
    by (simp add: bind_holder_def Status_Invalid_def)
  have s: "bind_holder ToString 0 (StringScalar ''abc'') example_statement =
      Inr (bind (sqlite3_bind_text 1 (c_str ''abc'') 3 SQLITE_TRANSIENT) example_statement)"
    using bind_holder_string [of "''abc''" ToString 0 example_statement]
    by (simp add: strlen_def c_str_def)
  have cols: "columns_loop ToString example_parameters 0 2 0 example_statement =
      (Some (Status Invalid (''Received unsupported data type: '' @ ToString DoubleType)),
       bind (sqlite3_bind_text 1 (c_str ''abc'') 3 SQLITE_TRANSIENT) example_statement)"
    apply (subst columns_loop.simps)
    apply (simp add: example_parameters_def GetScalar_def s)
    apply (subst columns_loop.simps)
    apply (simp add: GetScalar_def cell)
    done
  have rows: "rows_loop ToString example_parameters 1 2 0 example_statement =
      (Some (Status Invalid (''Received unsupported data type: '' @ ToString DoubleType)),
       bind (sqlite3_bind_text 1 (c_str ''abc'') 3 SQLITE_TRANSIENT) example_statement)"
    by (subst rows_loop.simps) (simp add: cols)
  have dims: "num_rows example_parameters = 1" "num_columns example_parameters = 2"
    by (simp_all add: example_parameters_def num_columns_def)
  have run: "DoPutPreparedStatement ToString example_server (to_string example_uuid)
        [Inr example_parameters] =
      Inr (Status Invalid (''Received unsupported data type: '' @ ToString DoubleType),
           example_server\<lparr>prepared_statements :=
             [example_uuid \<mapsto>
                bind (sqlite3_bind_text 1 (c_str ''abc'') 3 SQLITE_TRANSIENT)
                  example_statement]\<rparr>)"
    by (simp add: DoPutPreparedStatement_def lexical_cast_to_string length_example_uuid
        example_server_def dims rows)
  from cell run show ?thesis
    by blast
qed

section \<open>Properties of the statement handle registry\<close>

lemma not_found_status:
  "Status_Invalid [''Prepared statement not found''] =
     Status Invalid ''Prepared statement not found''"
  by (simp add: Status_Invalid_def)

lemma CreatePreparedStatement_registry:
  "prepared_statements
     (snd (snd (CreatePreparedStatement SqliteStatement_Create GetSchema SerializeSchema
                  GetUnknownColumnDataType uuid this query))) =
   (case SqliteStatement_Create query of
      Inl st \<Rightarrow> prepared_statements this
    | Inr statement \<Rightarrow> (prepared_statements this)(uuid \<mapsto> statement))"
proof (cases "SqliteStatement_Create query")
  case (Inl st)
  then show ?thesis
    by (simp add: CreatePreparedStatement_def)
next
  case (Inr statement)
  then show ?thesis
    by (cases "GetSchema statement";
        simp add: CreatePreparedStatement_def Let_def split: sum.split)
qed

lemma handle_not_found:
  assumes "lexical_cast h = Some u"
    and "prepared_statements this u = None"
  shows "ClosePreparedStatement this h =
           Inr (Status Invalid ''Prepared statement not found'', None, this)
         \<and> GetFlightInfoPreparedStatement GetSchema FlightInfo_Make SerializeAsString this h d =
           Inr (Status Invalid ''Prepared statement not found'', None)
         \<and> DoGetPreparedStatement SqliteStatementBatchReader_Create this h =
           Inr (Status Invalid ''Prepared statement not found'', None)
         \<and> DoPutPreparedStatement ToString this h reader =
           Inr (Status Invalid ''Prepared statement not found'', this)"
  using assms
  by (simp add: ClosePreparedStatement_def GetFlightInfoPreparedStatement_def
      DoGetPreparedStatement_def DoPutPreparedStatement_def not_found_status)

text \<open>
  C2. At a handle text that is not the text of a UUID the claim fails on the
  code: \<open>lexical_cast\<close> throws, none of the four handlers that take a handle
  catches the exception, and so each of them ends with it where the claim
  asks for a returned error. (A well-formed handle without an entry is
  answered with a returned status, lemma \<open>handle_not_found\<close>.)
\<close>

theorem malformed_handle_throws:
  "ClosePreparedStatement example_server ''zz'' = Inl bad_lexical_cast
   \<and> GetFlightInfoPreparedStatement example_get_schema example_flight_info_make
        example_serialize_command example_server ''zz'' ''descriptor'' =
      Inl bad_lexical_cast
   \<and> DoGetPreparedStatement example_reader_create example_server ''zz'' = Inl bad_lexical_cast
   \<and> DoPutPreparedStatement example_to_string example_server ''zz'' [Inr example_parameters] =
      Inl bad_lexical_cast"
  by (simp add: ClosePreparedStatement_def GetFlightInfoPreparedStatement_def
      DoGetPreparedStatement_def DoPutPreparedStatement_def lexical_cast_garbage)

text \<open>
  Against C3 as stated. The handle of the sample server is closed; the second
  Close and a DoGet of the closed handle then fail, but with the code
  \<open>Invalid\<close>, the code of the binder's error for an unsupported value and so the
  spec's class InvalidArgument, not NotFound. And the closed handle is usable
  again as soon as a Create draws the same value: the DoGet of it succeeds.
\<close>

theorem closed_handle_invalid_and_reusable:
  "ClosePreparedStatement example_server (to_string example_uuid) =
     Inr (Status_OK, Some (SimpleResultStream []), empty_server)
   \<and> ClosePreparedStatement empty_server (to_string example_uuid) =
       Inr (Status Invalid ''Prepared statement not found'', None, empty_server)
   \<and> DoGetPreparedStatement example_reader_create empty_server (to_string example_uuid) =
       Inr (Status Invalid ''Prepared statement not found'', None)
   \<and> bind_holder example_to_string 0 (BooleanScalar True) example_statement =
       Inl (Status Invalid ''Received unsupported data type: bool'')
   \<and> error_class_of (code (Status Invalid ''Prepared statement not found'')) =
       Some InvalidArgument
   \<and> error_class_of (code (Status Invalid ''Prepared statement not found'')) \<noteq> Some NotFound
   \<and> DoGetPreparedStatement example_reader_create
        (snd (snd (CreatePreparedStatement example_compile example_get_schema
                     example_serialize NullType example_uuid empty_server ''q'')))
        (to_string example_uuid) =
       Inr (Status_OK, Some (RecordBatchStream example_statement))"
proof -
  have l: "lexical_cast (to_string example_uuid) = Some example_uuid"
    by (rule lexical_cast_to_string [OF length_example_uuid])
  have c1: "ClosePreparedStatement example_server (to_string example_uuid) =
      Inr (Status_OK, Some (SimpleResultStream []), empty_server)"
    by (simp add: ClosePreparedStatement_def l example_server_def empty_server_def)
  have c2: "ClosePreparedStatement empty_server (to_string example_uuid) =
      Inr (Status Invalid ''Prepared statement not found'', None, empty_server)"
    by (simp add: ClosePreparedStatement_def l empty_server_def not_found_status)
  have g: "DoGetPreparedStatement example_reader_create empty_server (to_string example_uuid) =
      Inr (Status Invalid ''Prepared statement not found'', None)"
    by (simp add: DoGetPreparedStatement_def l empty_server_def not_found_status)
  have b: "bind_holder example_to_string 0 (BooleanScalar True) example_statement =
      Inl (Status Invalid ''Received unsupported data type: bool'')"
    by (simp add: bind_holder_def Status_Invalid_def example_to_string_def)
  have r: "prepared_statements
      (snd (snd (CreatePreparedStatement example_compile example_get_schema
                   example_serialize NullType example_uuid empty_server ''q''))) example_uuid =
      Some example_statement"
    by (simp add: CreatePreparedStatement_registry example_compile_def)
  have g': "DoGetPreparedStatement example_reader_create
      (snd (snd (CreatePreparedStatement example_compile example_get_schema
                   example_serialize NullType example_uuid empty_server ''q'')))
      (to_string example_uuid) =
      Inr (Status_OK, Some (RecordBatchStream example_statement))"
    by (simp add: DoGetPreparedStatement_def l r example_reader_create_def)
  from c1 c2 g b g' show ?thesis
    by simp
qed

text \<open>
  C3, amended. Closing a handle whose value is in the registry returns OK and
  removes exactly that entry. On the server so left, resolving the handle (in
  GetFlightInfo, DoGet and DoPut) and closing it again fail with the status
  \<open>Invalid\<close>, message \<open>Prepared statement not found\<close>, and leave the server as
  it is, so that repeating them changes nothing. After a later Create the
  handle has an entry exactly when that Create drew the same value again and
  the engine compiled its text.
\<close>

theorem close_then_not_found:
  assumes "lexical_cast h = Some u"
    and "prepared_statements this u = Some statement"
  shows "\<exists>this'.
           ClosePreparedStatement this h = Inr (Status_OK, Some (SimpleResultStream []), this')
           \<and> prepared_statements this' = (prepared_statements this)(u := None)
           \<and> db_statements this' = db_statements this
           \<and> GetFlightInfoPreparedStatement GetSchema FlightInfo_Make SerializeAsString
                this' h d =
               Inr (Status Invalid ''Prepared statement not found'', None)
           \<and> DoGetPreparedStatement SqliteStatementBatchReader_Create this' h =
               Inr (Status Invalid ''Prepared statement not found'', None)
           \<and> DoPutPreparedStatement ToString this' h reader =
               Inr (Status Invalid ''Prepared statement not found'', this')
           \<and> ClosePreparedStatement this' h =
               Inr (Status Invalid ''Prepared statement not found'', None, this')
           \<and> error_class_of (code (Status Invalid ''Prepared statement not found'')) =
               Some InvalidArgument
           \<and> (\<forall>uuid'.
                 prepared_statements
                   (snd (snd (CreatePreparedStatement SqliteStatement_Create GetSchema'
                                SerializeSchema GetUnknownColumnDataType uuid' this' query))) u
                 = (case SqliteStatement_Create query of
                      Inl st \<Rightarrow> None
                    | Inr statement' \<Rightarrow> if uuid' = u then Some statement' else None))"
proof -
  let ?this' = "this\<lparr>prepared_statements := (prepared_statements this)(u := None)\<rparr>"
  from assms have closed:
    "ClosePreparedStatement this h = Inr (Status_OK, Some (SimpleResultStream []), ?this')"
    by (simp add: ClosePreparedStatement_def)
  have gone: "prepared_statements ?this' u = None"
    by simp
  note after = handle_not_found [OF assms(1) gone]
  have later: "prepared_statements
      (snd (snd (CreatePreparedStatement SqliteStatement_Create GetSchema'
                   SerializeSchema GetUnknownColumnDataType uuid' ?this' query))) u =
      (case SqliteStatement_Create query of
         Inl st \<Rightarrow> None
       | Inr statement' \<Rightarrow> if uuid' = u then Some statement' else None)" for uuid'
    using gone
    by (simp add: CreatePreparedStatement_registry split: sum.split)
  have fields: "prepared_statements ?this' = (prepared_statements this)(u := None)"
    "db_statements ?this' = db_statements this"
    by simp_all
  have cls: "error_class_of (code (Status Invalid ''Prepared statement not found'')) =
      Some InvalidArgument"
    by simp
  show ?thesis
    apply (rule exI [of _ ?this'])
    apply (intro conjI allI)
            apply (rule closed)
           apply (rule fields(1))
          apply (rule fields(2))
         apply (rule after [THEN conjunct2, THEN conjunct1])
        apply (rule after [THEN conjunct2, THEN conjunct2, THEN conjunct1])
       apply (rule after [THEN conjunct2, THEN conjunct2, THEN conjunct2])
      apply (rule after [THEN conjunct1])
     apply (rule cls)
    apply (rule later)
    done
qed

theorem close_then_not_found_witness:
  "lexical_cast (to_string example_uuid) = Some example_uuid
   \<and> prepared_statements example_server example_uuid = Some example_statement
   \<and> ClosePreparedStatement example_server (to_string example_uuid) =
       Inr (Status_OK, Some (SimpleResultStream []), empty_server)
   \<and> DoGetPreparedStatement example_reader_create empty_server (to_string example_uuid) =
       Inr (Status Invalid ''Prepared statement not found'', None)
   \<and> ClosePreparedStatement empty_server (to_string example_uuid) =
       Inr (Status Invalid ''Prepared statement not found'', None, empty_server)"
proof -
  have l: "lexical_cast (to_string example_uuid) = Some example_uuid"
    by (rule lexical_cast_to_string [OF length_example_uuid])
  have e: "prepared_statements example_server example_uuid = Some example_statement"
    by (simp add: example_server_def)
  have c: "ClosePreparedStatement example_server (to_string example_uuid) =
       Inr (Status_OK, Some (SimpleResultStream []), empty_server)"
    by (simp add: ClosePreparedStatement_def l example_server_def empty_server_def)
  note inst = close_then_not_found
    [where h = "to_string example_uuid" and u = example_uuid and this = example_server
       and statement = example_statement,
     OF l e, where GetSchema = example_get_schema
       and FlightInfo_Make = example_flight_info_make
       and SerializeAsString = example_serialize_command and d = "''descriptor''"
       and SqliteStatementBatchReader_Create = example_reader_create
       and ToString = example_to_string and reader = "[]"
       and SqliteStatement_Create = example_compile and GetSchema' = example_get_schema
       and SerializeSchema = example_serialize and GetUnknownColumnDataType = NullType
       and query = "''q''"]
  from inst obtain this' where
    c': "ClosePreparedStatement example_server (to_string example_uuid) =
       Inr (Status_OK, Some (SimpleResultStream []), this')"
    and g': "DoGetPreparedStatement example_reader_create this' (to_string example_uuid) =
       Inr (Status Invalid ''Prepared statement not found'', None)"
    and c2': "ClosePreparedStatement this' (to_string example_uuid) =
       Inr (Status Invalid ''Prepared statement not found'', None, this')"
    by (elim exE conjE)
  from c c' have "this' = empty_server"
    by simp
  with g' c2' have
    "DoGetPreparedStatement example_reader_create empty_server (to_string example_uuid) =
       Inr (Status Invalid ''Prepared statement not found'', None)"
    "ClosePreparedStatement empty_server (to_string example_uuid) =
       Inr (Status Invalid ''Prepared statement not found'', None, empty_server)"
    by simp_all
  with l e c show ?thesis
    by (intro conjI)
qed

text \<open>
  Against C4 as stated. The registry of the sample server holds the sample
  value; a Create that draws that value again returns its text as the handle,
  which is then the handle of the statement registered before and not a
  fresh one, and replaces that statement (two parameters) by the new one (one
  parameter). And the text compiled, \<^verbatim>\<open>SELECT ?1, ?1\<close>, has two bind
  placeholders while the parameter schema returned has the one field \<open>?1\<close>.
\<close>

theorem create_handle_not_fresh:
  "map_option sqlite3_bind_parameter_count (prepared_statements example_server example_uuid) =
     Some 2
   \<and> bind_placeholders ''SELECT ?1, ?1'' = [''?1'', ''?1'']
   \<and> fst (CreatePreparedStatement sqlite3_Create example_get_schema example_serialize
          NullType example_uuid example_server ''SELECT ?1, ?1'') = Status_OK
   \<and> map_option result_prepared_statement_handle
        (fst (snd (CreatePreparedStatement sqlite3_Create example_get_schema example_serialize
                     NullType example_uuid example_server ''SELECT ?1, ?1''))) =
       Some (to_string example_uuid)
   \<and> map_option result_parameter_schema
        (fst (snd (CreatePreparedStatement sqlite3_Create example_get_schema example_serialize
                     NullType example_uuid example_server ''SELECT ?1, ?1''))) =
       Some ''?1;''
   \<and> map_option sqlite3_bind_parameter_count
        (prepared_statements
           (snd (snd (CreatePreparedStatement sqlite3_Create example_get_schema
                        example_serialize NullType example_uuid example_server
                        ''SELECT ?1, ?1'')))
           example_uuid) =
       Some 1"
proof -
  have t: "sqlite3_tokens ''SELECT ?1, ?1'' =
      Some [TK_KEYWORD ''SELECT'', TK_VARIABLE ''?1'', TK_COMMA, TK_VARIABLE ''?1'']"
    by code_simp
  have n: "number_variables [''?1'', ''?1''] 0 [] = (1, [(1, ''?1'')])"
    by code_simp
  have p: "sqlite3_Create ''SELECT ?1, ?1'' =
      Inr \<lparr>sqlite3_bind_parameter_count = 1,
           sqlite3_bind_parameter_name =
             (\<lambda>i. if i < 0 then None else map_of [(1, ''?1'')] (nat i)),
           bind_calls = []\<rparr>"
    by (simp add: sqlite3_Create_def sqlite3_prepare_def t n del: number_variables.simps One_nat_def)
  have loop: "parameter_fields_loop
      \<lparr>sqlite3_bind_parameter_count = 1,
       sqlite3_bind_parameter_name =
         (\<lambda>i. if i < 0 then None else map_of [(1, ''?1'')] (nat i)),
       bind_calls = []\<rparr> NullType 1 0 [] = [Field ''?1'' NullType]"
    by (simp add: parameter_fields_loop_upto)
  have r: "CreatePreparedStatement sqlite3_Create example_get_schema example_serialize
      NullType example_uuid example_server ''SELECT ?1, ?1'' =
      (Status_OK,
       Some \<lparr>result_dataset_schema = ''id;keyName;'',
             result_parameter_schema = ''?1;'',
             result_prepared_statement_handle = to_string example_uuid\<rparr>,
       example_server
         \<lparr>db_statements := db_statements example_server @ [''SELECT ?1, ?1''],
          prepared_statements := (prepared_statements example_server)
            (example_uuid \<mapsto>
               \<lparr>sqlite3_bind_parameter_count = 1,
                sqlite3_bind_parameter_name =
                  (\<lambda>i. if i < 0 then None else map_of [(1, ''?1'')] (nat i)),
                bind_calls = []\<rparr>)\<rparr>)"
    by (simp add: CreatePreparedStatement_def p loop example_get_schema_def
        example_serialize_def)
  have b: "bind_placeholders ''SELECT ?1, ?1'' = [''?1'', ''?1'']"
    by (simp add: bind_placeholders_def t)
  have e: "map_option sqlite3_bind_parameter_count
      (prepared_statements example_server example_uuid) = Some 2"
    by (simp add: example_server_def example_statement_def)
  from e b show ?thesis
    by (simp add: r)
qed

text \<open>
  C4, amended. When the engine compiles the text, the statement's schema is
  derived and both schemas serialize, Create returns OK with the text of the
  drawn value as the handle and registers the compiled statement under that
  value, whether or not the value had an entry before: the registry gains
  that one key and no other entry changes. Resolving the returned handle on
  the server so left finds that statement: DoGet goes on to create its reader
  from it, and GetFlightInfo builds its answer from the statement's schema,
  the same schema whose serialization Create returned. The parameter schema
  returned has one field per parameter the engine counts.
\<close>

theorem create_then_resolve:
  assumes "length uuid = 16"
    and "SqliteStatement_Create query = Inr statement"
    and "GetSchema statement = Inr dataset_schema"
    and "\<And>s. \<exists>bytes. SerializeSchema s = Inr bytes"
  shows "\<exists>result this'.
           CreatePreparedStatement SqliteStatement_Create GetSchema SerializeSchema
               GetUnknownColumnDataType uuid this query = (Status_OK, Some result, this')
           \<and> result_prepared_statement_handle result = to_string uuid
           \<and> lexical_cast (result_prepared_statement_handle result) = Some uuid
           \<and> prepared_statements this' = (prepared_statements this)(uuid \<mapsto> statement)
           \<and> dom (prepared_statements this') = insert uuid (dom (prepared_statements this))
           \<and> (\<forall>u. u \<noteq> uuid \<longrightarrow> prepared_statements this' u = prepared_statements this u)
           \<and> SerializeSchema dataset_schema = Inr (result_dataset_schema result)
           \<and> (\<exists>parameter_schema.
                 SerializeSchema parameter_schema = Inr (result_parameter_schema result)
                 \<and> length parameter_schema = nat (sqlite3_bind_parameter_count statement))
           \<and> DoGetPreparedStatement SqliteStatementBatchReader_Create this'
                (result_prepared_statement_handle result) =
               Inr (case SqliteStatementBatchReader_Create statement of
                      Inl st \<Rightarrow> (st, None)
                    | Inr reader \<Rightarrow> (Status_OK, Some (RecordBatchStream reader)))
           \<and> GetFlightInfoPreparedStatement GetSchema FlightInfo_Make SerializeAsString this'
                (result_prepared_statement_handle result) d =
               Inr (GetFlightInfoForCommand FlightInfo_Make d
                      (SerializeAsString (result_prepared_statement_handle result))
                      dataset_schema)"
proof -
  let ?ps = "parameter_fields_loop statement GetUnknownColumnDataType
               (sqlite3_bind_parameter_count statement) 0 []"
  let ?this' = "this\<lparr>db_statements := db_statements this @ [query],
                  prepared_statements := (prepared_statements this)(uuid \<mapsto> statement)\<rparr>"
  from assms(4) obtain sd where sd: "SerializeSchema dataset_schema = Inr sd"
    by blast
  from assms(4) obtain sp where sp: "SerializeSchema ?ps = Inr sp"
    by blast
  let ?result = "\<lparr>result_dataset_schema = sd, result_parameter_schema = sp,
                   result_prepared_statement_handle = to_string uuid\<rparr>"
  have created: "CreatePreparedStatement SqliteStatement_Create GetSchema SerializeSchema
      GetUnknownColumnDataType uuid this query = (Status_OK, Some ?result, ?this')"
    by (simp add: CreatePreparedStatement_def Let_def assms(2,3) sd sp)
  have cast: "lexical_cast (to_string uuid) = Some uuid"
    by (rule lexical_cast_to_string [OF assms(1)])
  have registry: "prepared_statements ?this' = (prepared_statements this)(uuid \<mapsto> statement)"
    by simp
  have keys: "dom (prepared_statements ?this') = insert uuid (dom (prepared_statements this))"
    by simp
  have others: "\<forall>u. u \<noteq> uuid \<longrightarrow> prepared_statements ?this' u = prepared_statements this u"
    by simp
  have params: "length ?ps = nat (sqlite3_bind_parameter_count statement)"
    by (simp add: parameter_fields_loop_upto)
  have get: "DoGetPreparedStatement SqliteStatementBatchReader_Create ?this' (to_string uuid) =
      Inr (case SqliteStatementBatchReader_Create statement of
             Inl st \<Rightarrow> (st, None)
           | Inr reader \<Rightarrow> (Status_OK, Some (RecordBatchStream reader)))"
    by (simp add: DoGetPreparedStatement_def cast split: sum.split)
  have info: "GetFlightInfoPreparedStatement GetSchema FlightInfo_Make SerializeAsString ?this'
      (to_string uuid) d =
      Inr (GetFlightInfoForCommand FlightInfo_Make d (SerializeAsString (to_string uuid))
             dataset_schema)"
    by (simp add: GetFlightInfoPreparedStatement_def cast assms(3))
  show ?thesis
    apply (rule exI [of _ ?result])
    apply (rule exI [of _ ?this'])
    apply (intro conjI)
             apply (rule created)
            apply simp
           apply (simp add: cast)
          apply (rule registry)
         apply (rule keys)
        apply (rule others)
       apply (simp add: sd)
      apply (rule exI [of _ ?ps], simp add: sp params)
     apply (simp add: get)
    apply (simp add: info)
    done
qed

theorem create_then_resolve_witness:
  "length example_uuid = 16
   \<and> example_compile ''q'' = Inr example_statement
   \<and> example_get_schema example_statement =
       Inr [Field ''id'' Int64Type, Field ''keyName'' StringType]
   \<and> (\<forall>s. \<exists>bytes. example_serialize s = Inr bytes)
   \<and> (\<exists>result this'.
         CreatePreparedStatement example_compile example_get_schema example_serialize
           NullType example_uuid empty_server ''q'' = (Status_OK, Some result, this')
         \<and> result_prepared_statement_handle result = to_string example_uuid
         \<and> prepared_statements this' = [example_uuid \<mapsto> example_statement]
         \<and> DoGetPreparedStatement example_reader_create this'
              (result_prepared_statement_handle result) =
             Inr (Status_OK, Some (RecordBatchStream example_statement)))"
proof -
  have c: "example_compile ''q'' = Inr example_statement"
    by (simp add: example_compile_def)
  have g: "example_get_schema example_statement =
       Inr [Field ''id'' Int64Type, Field ''keyName'' StringType]"
    by (simp add: example_get_schema_def)
  have s: "\<exists>bytes. example_serialize s = Inr bytes" for s
    by (simp add: example_serialize_def)
  note inst = create_then_resolve
    [where uuid = example_uuid and SqliteStatement_Create = example_compile
       and query = "''q''" and statement = example_statement
       and GetSchema = example_get_schema
       and dataset_schema = "[Field ''id'' Int64Type, Field ''keyName'' StringType]"
       and SerializeSchema = example_serialize
       and GetUnknownColumnDataType = NullType
       and this = empty_server and SqliteStatementBatchReader_Create = example_reader_create
       and FlightInfo_Make = example_flight_info_make
       and SerializeAsString = example_serialize_command and d = "''descriptor''",
     OF length_example_uuid c g s]
  from inst obtain result this' where
    r1: "CreatePreparedStatement example_compile example_get_schema example_serialize
       NullType example_uuid empty_server ''q'' = (Status_OK, Some result, this')"
    and r2: "result_prepared_statement_handle result = to_string example_uuid"
    and r3: "prepared_statements this' =
       (prepared_statements empty_server)(example_uuid \<mapsto> example_statement)"
    and r4: "DoGetPreparedStatement example_reader_create this'
       (result_prepared_statement_handle result) =
      Inr (case example_reader_create example_statement of
             Inl st \<Rightarrow> (st, None)
           | Inr reader \<Rightarrow> (Status_OK, Some (RecordBatchStream reader)))"
    by (elim exE conjE)
  from r3 have r3': "prepared_statements this' = [example_uuid \<mapsto> example_statement]"
    by (simp add: empty_server_def)
  from r4 have r4': "DoGetPreparedStatement example_reader_create this'
       (result_prepared_statement_handle result) =
      Inr (Status_OK, Some (RecordBatchStream example_statement))"
    by (simp add: example_reader_create_def)
  have "\<exists>result this'.
         CreatePreparedStatement example_compile example_get_schema example_serialize
           NullType example_uuid empty_server ''q'' = (Status_OK, Some result, this')
         \<and> result_prepared_statement_handle result = to_string example_uuid
         \<and> prepared_statements this' = [example_uuid \<mapsto> example_statement]
         \<and> DoGetPreparedStatement example_reader_create this'
              (result_prepared_statement_handle result) =
             Inr (Status_OK, Some (RecordBatchStream example_statement))"
    by (intro exI conjI) (rule r1 r2 r3' r4')+
  with length_example_uuid c g s show ?thesis
    by (intro conjI allI)
qed

end
